theory Spec2Isabelle
  imports Main
begin

section \<open>The type graph consumed by the generator\<close>

text \<open>
  The generator of \<^verbatim>\<open>pkg/generator/generator.go\<close> works on the type graph of the
  gengo library: values of \<^verbatim>\<open>*types.Type\<close>, compared by pointer identity
  (\<^verbatim>\<open>inType == outType\<close>) and read through their fields. The graph may be cyclic and
  \<^verbatim>\<open>doStruct\<close> allocates copies of types, so a type value is a pointer into an explicit
  store. A \<^verbatim>\<open>nil\<close> pointer is \<open>None\<close>.
\<close>

text \<open>The kinds of gengo (\<^verbatim>\<open>types.Kind\<close>); \<open>Unknown\<close> is the empty kind.\<close>

datatype kind = Builtin | Struct | Map | Pointer | Slice | Interface | Alias
  | DeclarationOf | Unknown | Unsupported | Protobuf | Array | Chan | Func

text \<open>
  Pointers: the types of the universe, and the two copies that one iteration of the loop of
  \<^verbatim>\<open>doStruct\<close> may allocate (\<^verbatim>\<open>copied := *underlying\<close>), which are
  fresh and distinct from each other.
\<close>

datatype tptr = Univ nat | CopiedIn | CopiedOut

record tname =
  Package :: string
  Name :: string

record member =
  MemberName :: string
  MemberCommentLines :: "string list"
  MemberType :: tptr

record gtype =
  TypeName :: tname
  Kind :: kind
  CommentLines :: "string list"
  Members :: "member list"
  Elem :: "tptr option"
  Key :: "tptr option"
  Underlying :: "tptr option"

type_synonym store = "tptr \<Rightarrow> gtype"

section \<open>What the generator writes\<close>

text \<open>
  The snippet writer and the logger are append-only. Every function below returns what it
  appends: the calls of \<^verbatim>\<open>sw.Do(template, args)\<close> in order, the calls of klog in
  order, and the errors it returns. A type passed to \<^verbatim>\<open>sw.Do\<close> or to klog is
  recorded by its value at the time of the call.
\<close>

datatype argval = TypeVal "gtype option" | StrVal string

datatype sarg = ANil | AType "gtype option" | AArgs "(string \<times> argval) list"

datatype snippet = Do string sarg

datatype logarg = LName tname | LNilType | LStr string | LErr string

datatype logentry =
    Warningf string "logarg list"
  | Errorf string "logarg list"
  | InfofV5 string "logarg list"

type_synonym err = string

record res =
  emitted :: "snippet list"
  logged :: "logentry list"
  errs :: "err list"

definition emit :: "snippet list \<Rightarrow> res" where
  "emit sn = \<lparr>emitted = sn, logged = [], errs = []\<rparr>"

definition klog :: "logentry list \<Rightarrow> res" where
  "klog ls = \<lparr>emitted = [], logged = ls, errs = []\<rparr>"

definition app_res :: "res \<Rightarrow> res \<Rightarrow> res" where
  "app_res a b =
     \<lparr>emitted = emitted a @ emitted b, logged = logged a @ logged b, errs = errs a @ errs b\<rparr>"

definition seq_res :: "res list \<Rightarrow> res" where
  "seq_res rs = foldr app_res rs (emit [])"

text \<open>A type as klog prints it (\<^verbatim>\<open>%s\<close> of a \<^verbatim>\<open>*types.Type\<close> is its name).\<close>

definition ltype :: "store \<Rightarrow> tptr option \<Rightarrow> logarg" where
  "ltype h p = (case p of None \<Rightarrow> LNilType | Some t \<Rightarrow> LName (TypeName (h t)))"

definition tval :: "store \<Rightarrow> tptr option \<Rightarrow> gtype option" where
  "tval h p = map_option h p"

section \<open>Options, tracker and generator\<close>

type_synonym namedVar = "string \<times> tptr option"

definition NewNamedVariable :: "string \<Rightarrow> tptr option \<Rightarrow> namedVar" where
  "NewNamedVariable n t = (n, t)"

text \<open>
  The manual conversions tracker is not part of the sources at hand, apart from its two
  fields that the generator reads. Its method \<^verbatim>\<open>preexists\<close> is a field here.
\<close>

record tracker =
  preexists_of :: "tptr option \<Rightarrow> tptr option \<Rightarrow> tptr option"
  additionalConversionArguments :: "(string \<times> tptr) list"

text \<open>
  A handler writes into the snippet writer and returns an error or \<^verbatim>\<open>nil\<close>: here
  it returns what it writes. A handler that is not set is \<open>None\<close>.
\<close>

record options =
  ManualConversionsTracker :: tracker
  NoUnsafeConversions :: bool
  TagName :: string
  FunctionTagName :: string
  MissingFieldsHandler ::
    "(store \<Rightarrow> namedVar \<Rightarrow> namedVar \<Rightarrow> member \<Rightarrow> snippet list \<times> err option) option"
  InconvertibleFieldsHandler ::
    "(store \<Rightarrow> namedVar \<Rightarrow> namedVar \<Rightarrow> member \<Rightarrow> member \<Rightarrow> snippet list \<times> err option) option"
  UnsupportedTypesHandler ::
    "(store \<Rightarrow> namedVar \<Rightarrow> namedVar \<Rightarrow> snippet list \<times> err option) option"
  ExternalConversionsHandler ::
    "(store \<Rightarrow> namedVar \<Rightarrow> namedVar \<Rightarrow> snippet list \<times> bool \<times> err option) option"

record generator =
  Options :: options
  typesPackage :: string
  outputPackage :: string
  peerPackages :: "string list"
  unsafeConversionArbitrator :: "store \<Rightarrow> tptr \<Rightarrow> tptr \<Rightarrow> bool"
  peerTypes :: "string \<Rightarrow> tptr option option"

text \<open>
  The functions that \<^verbatim>\<open>generator.go\<close> calls and that are defined elsewhere: the
  helpers of the package (\<^verbatim>\<open>isDirectlyAssignable\<close>, \<^verbatim>\<open>isFastConversion\<close>,
  \<^verbatim>\<open>unwrapAlias\<close>, \<^verbatim>\<open>findMember\<close>, \<^verbatim>\<open>functionHasTag\<close>,
  \<^verbatim>\<open>argsFromType\<close>, \<^verbatim>\<open>conversionFunctionNameTemplate\<close>) and two functions
  of gengo (\<^verbatim>\<open>types.ExtractCommentTags\<close>, \<^verbatim>\<open>namer.IsPrivateGoName\<close>). They
  are parameters of every definition, so each theorem holds whatever they compute.
\<close>

record helpers =
  ExtractCommentTags :: "string \<Rightarrow> string list \<Rightarrow> string \<Rightarrow> string list"
  IsPrivateGoName :: "string \<Rightarrow> bool"
  isDirectlyAssignable :: "store \<Rightarrow> tptr option \<Rightarrow> tptr option \<Rightarrow> bool"
  isFastConversion :: "store \<Rightarrow> tptr \<Rightarrow> tptr \<Rightarrow> bool"
  unwrapAlias :: "store \<Rightarrow> tptr \<Rightarrow> tptr"
  findMember :: "store \<Rightarrow> tptr \<Rightarrow> string \<Rightarrow> member option"
  functionHasTag_of :: "store \<Rightarrow> tptr \<Rightarrow> string \<Rightarrow> string \<Rightarrow> bool"
  argsFromType :: "store \<Rightarrow> tptr option \<Rightarrow> tptr option \<Rightarrow> (string \<times> argval) list"
  conversionFunctionNameTemplate :: "string \<Rightarrow> string"

definition rawNamer :: string where
  "rawNamer = ''ConversionGenerator_raw''"

definition publicImportTrackingNamer :: string where
  "publicImportTrackingNamer = ''ConversionGenerator_publicIT''"

text \<open>
  \<^verbatim>\<open>Args.With\<close> of gengo is not part of the repository: it makes a copy of the
  arguments to which the key is added; a key that the arguments have already keeps its
  value. The assignment \<^verbatim>\<open>args[key] = value\<close> of Go sets the key in every case.
\<close>

fun With :: "(string \<times> argval) list \<Rightarrow> string \<Rightarrow> argval \<Rightarrow> (string \<times> argval) list" where
  "With args k v = (if k \<in> set (map fst args) then args else args @ [(k, v)])"

fun setArg :: "(string \<times> argval) list \<Rightarrow> string \<Rightarrow> argval \<Rightarrow> (string \<times> argval) list" where
  "setArg [] k v = [(k, v)]"
| "setArg ((k', v') # kvs) k v = (if k' = k then (k, v) # kvs else (k', v') # setArg kvs k v)"

section \<open>Comment tags\<close>

definition extractTag_of :: "helpers \<Rightarrow> string \<Rightarrow> string list \<Rightarrow> string list" where
  "extractTag_of hp tagName comments =
     (if tagName = [] then [] else ExtractCommentTags hp ''+'' comments tagName)"

definition extractTag :: "generator \<Rightarrow> helpers \<Rightarrow> string list \<Rightarrow> string list" where
  "extractTag g hp comments = extractTag_of hp (TagName (Options g)) comments"

fun hasTag_loop :: "string list \<Rightarrow> string \<Rightarrow> bool" where
  "hasTag_loop [] v = False"
| "hasTag_loop (val # vals) v = (if val = v then True else hasTag_loop vals v)"

definition hasTag :: "generator \<Rightarrow> helpers \<Rightarrow> string list \<Rightarrow> string \<Rightarrow> bool" where
  "hasTag g hp comments v = hasTag_loop (extractTag g hp comments) v"

text \<open>\<^verbatim>\<open>strings.Split(val, ":")\<close>, for a separator of one character.\<close>

fun strings_Split :: "string \<Rightarrow> char \<Rightarrow> string list" where
  "strings_Split [] sep = [[]]"
| "strings_Split (c # cs) sep =
     (if c = sep then [] # strings_Split cs sep
      else (case strings_Split cs sep of
              [] \<Rightarrow> [[c]]
            | w # ws \<Rightarrow> (c # w) # ws))"

fun hasTagOption_loop :: "string list \<Rightarrow> string \<Rightarrow> bool \<times> string" where
  "hasTagOption_loop [] optionName = (False, [])"
| "hasTagOption_loop (val # vals) optionName =
     (case strings_Split val (CHR '':'') of
        [a, b] \<Rightarrow> (if a = optionName then (True, b) else hasTagOption_loop vals optionName)
      | _ \<Rightarrow> hasTagOption_loop vals optionName)"

definition hasTagOption :: "generator \<Rightarrow> helpers \<Rightarrow> string list \<Rightarrow> string \<Rightarrow> bool \<times> string" where
  "hasTagOption g hp comments optionName =
     hasTagOption_loop (extractTag g hp comments) optionName"

text \<open>
  \<^verbatim>\<open>optedOut\<close> takes a type or a member and reads its comment lines; both callers
  are typed, so the fatal default of its type switch is never reached.
\<close>

definition optedOut :: "generator \<Rightarrow> helpers \<Rightarrow> string list \<Rightarrow> bool" where
  "optedOut g hp commentLines = hasTag g hp commentLines ''false''"

definition noPublicFun :: "generator \<Rightarrow> helpers \<Rightarrow> store \<Rightarrow> tptr \<Rightarrow> bool" where
  "noPublicFun g hp h t = hasTag g hp (CommentLines (h t)) ''no-public''"

definition functionHasTag :: "generator \<Rightarrow> helpers \<Rightarrow> store \<Rightarrow> tptr \<Rightarrow> string \<Rightarrow> bool" where
  "functionHasTag g hp h function tagValue =
     functionHasTag_of hp h function (FunctionTagName (Options g)) tagValue"

definition preexists :: "generator \<Rightarrow> tptr option \<Rightarrow> tptr option \<Rightarrow> tptr option" where
  "preexists g inType outType = preexists_of (ManualConversionsTracker (Options g)) inType outType"

definition useUnsafeConversion :: "generator \<Rightarrow> store \<Rightarrow> tptr \<Rightarrow> tptr \<Rightarrow> bool" where
  "useUnsafeConversion g h t1 t2 =
     (\<not> NoUnsafeConversions (Options g) \<and> unsafeConversionArbitrator g h t1 t2)"

fun extraArgumentsString_loop :: "(string \<times> tptr) list \<Rightarrow> string \<Rightarrow> string" where
  "extraArgumentsString_loop [] result = result"
| "extraArgumentsString_loop (namedArgument # rest) result =
     extraArgumentsString_loop rest (result @ '', '' @ fst namedArgument)"

definition extraArgumentsString :: "generator \<Rightarrow> string" where
  "extraArgumentsString g =
     extraArgumentsString_loop
       (additionalConversionArguments (ManualConversionsTracker (Options g))) []"

section \<open>The cross-package policy\<close>

text \<open>
  \<^verbatim>\<open>convertibleOnlyWithinPackage\<close> reads \<^verbatim>\<open>inType.Name\<close> first, then the
  fields of the side it has chosen, and the name of the other side last and only for a
  struct: reading through a \<^verbatim>\<open>nil\<close> pointer panics, which is \<open>None\<close>. The result
  comes with the trace message that the function may log.
\<close>

definition convertibleOnlyWithinPackage ::
  "generator \<Rightarrow> helpers \<Rightarrow> store \<Rightarrow> tptr option \<Rightarrow> tptr option \<Rightarrow> (bool \<times> logentry list) option" where
  "convertibleOnlyWithinPackage g hp h inType outType =
     (case inType of
        None \<Rightarrow> None
      | Some i \<Rightarrow>
          (let t = (if Package (TypeName (h i)) = typesPackage g then inType else outType);
               other = (if Package (TypeName (h i)) = typesPackage g then outType else inType)
           in case t of
                None \<Rightarrow> None
              | Some t' \<Rightarrow>
                  if Package (TypeName (h t')) \<noteq> typesPackage g then Some (False, [])
                  else if optedOut g hp (CommentLines (h t')) then
                    Some (False,
                      [InfofV5 ''type %v requests no conversion generation, skipping''
                         [LName (TypeName (h t'))]])
                  else if Kind (h t') = Struct then
                    (case other of
                       None \<Rightarrow> None
                     | Some other' \<Rightarrow>
                         Some (\<not> IsPrivateGoName hp (Name (TypeName (h other'))), []))
                  else Some (False, [])))"

section \<open>The handlers of each kind\<close>

definition errlist :: "err option \<Rightarrow> err list" where
  "errlist e = (case e of None \<Rightarrow> [] | Some x \<Rightarrow> [x])"

definition doBuiltin :: "generator \<Rightarrow> helpers \<Rightarrow> store \<Rightarrow> tptr \<Rightarrow> tptr \<Rightarrow> res" where
  "doBuiltin g hp h inType outType =
     (if inType = outType then emit [Do ''*out = *in\<newline>'' ANil]
      else emit [Do (''*out = $.|'' @ rawNamer @ ''$(*in)\<newline>'') (AType (Some (h outType)))])"

definition doMap :: "generator \<Rightarrow> helpers \<Rightarrow> store \<Rightarrow> tptr \<Rightarrow> tptr \<Rightarrow> res option" where
  "doMap g hp h inType outType =
     (let inKey = Key (h inType); outKey = Key (h outType);
          inElem = Elem (h inType); outElem = Elem (h outType);
          make = Do (''*out = make($.|'' @ rawNamer @ ''$, len(*in))\<newline>'')
                   (AType (Some (h outType)));
          loop = Do ''for key, val := range *in {\<newline>'' ANil;
          newVal = Do (''newVal := new($.|'' @ rawNamer @ ''$)\<newline>'') (AType (tval h outElem));
          assign = (if inKey = outKey then Do ''(*out)[key] = *newVal\<newline>'' ANil
                    else Do (''(*out)[$.|'' @ rawNamer @ ''$(key)] = *newVal\<newline>'')
                           (AType (tval h outKey)));
          close = Do ''}\<newline>'' ANil
      in if isDirectlyAssignable hp h inKey outKey then
           (if isDirectlyAssignable hp h inElem outElem then
              Some (emit
                [make, loop,
                 (if inKey = outKey then Do ''(*out)[key] = '' ANil
                  else Do (''(*out)[$.|'' @ rawNamer @ ''$(key)] = '') (AType (tval h outKey))),
                 (if inElem = outElem then Do ''val\<newline>'' ANil
                  else Do (''$.|'' @ rawNamer @ ''$(val)\<newline>'') (AType (tval h outElem))),
                 close])
            else
              (case preexists g inElem outElem of
                 Some function \<Rightarrow>
                   Some (emit
                     [make, loop, newVal,
                      Do (''if err := $.|'' @ rawNamer @ ''$(&val, newVal''
                            @ extraArgumentsString g @ ''); err != nil {\<newline>'')
                         (AType (Some (h function))),
                      Do ''return err\<newline>}\<newline>'' ANil,
                      assign, close])
               | None \<Rightarrow>
                   (case convertibleOnlyWithinPackage g hp h inElem outElem of
                      None \<Rightarrow> None
                    | Some (True, lg) \<Rightarrow>
                        Some (seq_res
                          [emit [make, loop, newVal], klog lg,
                           emit
                             [Do (''if err := ''
                                   @ conversionFunctionNameTemplate hp publicImportTrackingNamer
                                   @ ''(&val, newVal'' @ extraArgumentsString g
                                   @ ''); err != nil {\<newline>'')
                                (AArgs (argsFromType hp h inElem outElem)),
                              Do ''return err\<newline>}\<newline>'' ANil,
                              assign, close]])
                    | Some (False, lg) \<Rightarrow>
                        (case ExternalConversionsHandler (Options g) of
                           None \<Rightarrow>
                             Some (seq_res
                               [emit [make, loop, newVal], klog lg,
                                klog [Warningf
                                  ''%s's values of type %s require manual conversion to external type %s''
                                  [LName (TypeName (h inType)), ltype h inElem,
                                   LName (TypeName (h outType))]],
                                emit [assign, close]])
                         | Some handler \<Rightarrow>
                             (case handler h (NewNamedVariable ''&val'' inElem)
                                     (NewNamedVariable ''newVal'' outElem) of
                                (written, _, e) \<Rightarrow>
                                  Some (seq_res
                                    [emit [make, loop, newVal], klog lg,
                                     \<lparr>emitted = written, logged = [], errs = errlist e\<rparr>,
                                     emit [assign, close]]))))))
         else
           Some (emit
             [make,
              Do ''for range *in {\<newline>'' ANil,
              Do (''// FIXME: Converting unassignable keys unsupported $.|'' @ rawNamer
                    @ ''$\<newline>'') (AType (tval h inKey)),
              close]))"

text \<open>
  \<^verbatim>\<open>inType.Elem == outType.Elem && inType.Elem.Kind == types.Builtin\<close>: the second
  operand is evaluated only when the pointers are equal, and panics when they are both
  \<^verbatim>\<open>nil\<close>.
\<close>

definition sameBuiltinElem :: "store \<Rightarrow> tptr option \<Rightarrow> tptr option \<Rightarrow> bool option" where
  "sameBuiltinElem h inElem outElem =
     (if inElem = outElem then
        (case inElem of None \<Rightarrow> None | Some e \<Rightarrow> Some (Kind (h e) = Builtin))
      else Some False)"

definition doSlice :: "generator \<Rightarrow> helpers \<Rightarrow> store \<Rightarrow> tptr \<Rightarrow> tptr \<Rightarrow> res option" where
  "doSlice g hp h inType outType =
     (let inElem = Elem (h inType); outElem = Elem (h outType);
          make = Do (''*out = make($.|'' @ rawNamer @ ''$, len(*in))\<newline>'')
                   (AType (Some (h outType)));
          loop = Do ''for i := range *in {\<newline>'' ANil;
          close = Do ''}\<newline>'' ANil
      in case sameBuiltinElem h inElem outElem of
           None \<Rightarrow> None
         | Some True \<Rightarrow> Some (emit [make, Do ''copy(*out, *in)\<newline>'' ANil])
         | Some False \<Rightarrow>
             if isDirectlyAssignable hp h inElem outElem then
               Some (emit
                 [make, loop,
                  (if inElem = outElem then Do ''(*out)[i] = (*in)[i]\<newline>'' ANil
                   else Do (''(*out)[i] = $.|'' @ rawNamer @ ''$((*in)[i])\<newline>'')
                          (AType (tval h outElem))),
                  close])
             else
               (case preexists g inElem outElem of
                  Some function \<Rightarrow>
                    Some (emit
                      [make, loop,
                       Do (''if err := $.|'' @ rawNamer @ ''$(&(*in)[i], &(*out)[i]''
                             @ extraArgumentsString g @ ''); err != nil {\<newline>'')
                          (AType (Some (h function))),
                       Do ''return err\<newline>}\<newline>'' ANil,
                       close])
                | None \<Rightarrow>
                    (case convertibleOnlyWithinPackage g hp h inElem outElem of
                       None \<Rightarrow> None
                     | Some (True, lg) \<Rightarrow>
                         Some (seq_res
                           [emit [make, loop], klog lg,
                            emit
                              [Do (''if err := ''
                                    @ conversionFunctionNameTemplate hp publicImportTrackingNamer
                                    @ ''(&(*in)[i], &(*out)[i]'' @ extraArgumentsString g
                                    @ ''); err != nil {\<newline>'')
                                 (AArgs (argsFromType hp h inElem outElem)),
                               Do ''return err\<newline>}\<newline>'' ANil,
                               close]])
                     | Some (False, lg) \<Rightarrow>
                         (case ExternalConversionsHandler (Options g) of
                            None \<Rightarrow>
                              Some (seq_res
                                [emit [make, loop], klog lg,
                                 klog [Warningf
                                   ''%s's items of type %s require manual conversion to external type %s''
                                   [LName (TypeName (h inType)), LName (TypeName (h inType)),
                                    LName (TypeName (h outType))]],
                                 emit [Do ''_ = i\<newline>'' ANil, close]])
                          | Some handler \<Rightarrow>
                              (case handler h (NewNamedVariable ''&(*in)[i]'' inElem)
                                      (NewNamedVariable ''&(*out)[i]'' outElem) of
                                 (written, conversionHandled, e) \<Rightarrow>
                                   Some (seq_res
                                     [emit [make, loop], klog lg,
                                      \<lparr>emitted = written, logged = [], errs = errlist e\<rparr>,
                                      emit ((if \<not> conversionHandled
                                             then [Do ''_ = i\<newline>'' ANil] else [])
                                            @ [close])]))))))"

definition doPointer :: "generator \<Rightarrow> helpers \<Rightarrow> store \<Rightarrow> tptr \<Rightarrow> tptr \<Rightarrow> res option" where
  "doPointer g hp h inType outType =
     (let inElem = Elem (h inType); outElem = Elem (h outType);
          new = Do (''*out = new($.Elem|'' @ rawNamer @ ''$)\<newline>'') (AType (Some (h outType)))
      in if isDirectlyAssignable hp h inElem outElem then
           Some (emit
             [new,
              (if inElem = outElem then Do ''**out = **in\<newline>'' ANil
               else Do (''**out = $.|'' @ rawNamer @ ''$(**in)\<newline>'') (AType (tval h outElem)))])
         else
           (case preexists g inElem outElem of
              Some function \<Rightarrow>
                Some (emit
                  [new,
                   Do (''if err := $.|'' @ rawNamer @ ''$(*in, *out''
                         @ extraArgumentsString g @ ''); err != nil {\<newline>'')
                      (AType (Some (h function))),
                   Do ''return err\<newline>}\<newline>'' ANil])
            | None \<Rightarrow>
                (case convertibleOnlyWithinPackage g hp h inElem outElem of
                   None \<Rightarrow> None
                 | Some (True, lg) \<Rightarrow>
                     Some (seq_res
                       [emit [new], klog lg,
                        emit
                          [Do (''if err := ''
                                @ conversionFunctionNameTemplate hp publicImportTrackingNamer
                                @ ''(*in, *out'' @ extraArgumentsString g
                                @ ''); err != nil {\<newline>'')
                             (AArgs (argsFromType hp h inElem outElem)),
                           Do ''return err\<newline>}\<newline>'' ANil]])
                 | Some (False, lg) \<Rightarrow>
                     (case ExternalConversionsHandler (Options g) of
                        None \<Rightarrow>
                          Some (seq_res
                            [emit [new], klog lg,
                             klog [Warningf
                               ''%s's values of type %s require manual conversion to external type %s''
                               [LName (TypeName (h inType)), ltype h inElem,
                                LName (TypeName (h outType))]]])
                      | Some handler \<Rightarrow>
                          (case handler h (NewNamedVariable ''*in'' (Some inType))
                                  (NewNamedVariable ''*out'' (Some outType)) of
                             (written, _, e) \<Rightarrow>
                               Some (seq_res
                                 [emit [new], klog lg,
                                  \<lparr>emitted = written, logged = [], errs = errlist e\<rparr>]))))))"

definition doUnknown :: "generator \<Rightarrow> helpers \<Rightarrow> store \<Rightarrow> tptr \<Rightarrow> tptr \<Rightarrow> res" where
  "doUnknown g hp h inType outType =
     (case UnsupportedTypesHandler (Options g) of
        None \<Rightarrow>
          klog [Warningf ''Don't know how to convert %s to %s''
                  [LName (TypeName (h inType)), LName (TypeName (h outType))]]
      | Some handler \<Rightarrow>
          (case handler h (NewNamedVariable ''in'' (Some inType))
                  (NewNamedVariable ''out'' (Some outType)) of
             (written, e) \<Rightarrow> \<lparr>emitted = written, logged = [], errs = errlist e\<rparr>))"

definition doAlias :: "generator \<Rightarrow> helpers \<Rightarrow> store \<Rightarrow> tptr \<Rightarrow> tptr \<Rightarrow> res" where
  "doAlias g hp h inType outType = doUnknown g hp h inType outType"

section \<open>Records\<close>

text \<open>
  \<^verbatim>\<open>callExternalConversionsHandlerForStructField\<close> returns the errors it was given,
  with the error of the handler appended.
\<close>

definition callExternalConversionsHandlerForStructField ::
  "generator \<Rightarrow> helpers \<Rightarrow> store \<Rightarrow> tptr \<Rightarrow> tptr \<Rightarrow> tptr \<Rightarrow> tptr \<Rightarrow> member \<Rightarrow> member
     \<Rightarrow> err list \<Rightarrow> res" where
  "callExternalConversionsHandlerForStructField g hp h inType outType inMemberType outMemberType
       inMember outMember errors =
     (case ExternalConversionsHandler (Options g) of
        None \<Rightarrow>
          \<lparr>emitted = [],
           logged = [Warningf ''%s.%s requires manual conversion to external type %s.%s''
                       [LName (TypeName (h inType)), LStr (MemberName inMember),
                        LName (TypeName (h outType)), LStr (MemberName outMember)]],
           errs = errors\<rparr>
      | Some handler \<Rightarrow>
          (case handler h (NewNamedVariable (''&in.'' @ MemberName inMember) (Some inMemberType))
                  (NewNamedVariable (''&out.'' @ MemberName outMember) (Some outMemberType)) of
             (written, _, e) \<Rightarrow>
               \<lparr>emitted = written, logged = [], errs = errors @ errlist e\<rparr>))"

text \<open>
  The branch of a member that has no member of its name in the peer type.
\<close>

definition missingField ::
  "generator \<Rightarrow> helpers \<Rightarrow> store \<Rightarrow> tptr \<Rightarrow> tptr \<Rightarrow> member \<Rightarrow> res" where
  "missingField g hp h inType outType inMember =
     (case MissingFieldsHandler (Options g) of
        None \<Rightarrow>
          klog [Warningf ''%s.%s requires manual conversion: does not exist in peer-type %s''
                  [LName (TypeName (h inType)), LStr (MemberName inMember),
                   LName (TypeName (h outType))]]
      | Some handler \<Rightarrow>
          (case handler h (NewNamedVariable ''in'' (Some inType))
                  (NewNamedVariable ''out'' (Some outType)) inMember of
             (written, e) \<Rightarrow> \<lparr>emitted = written, logged = [], errs = errlist e\<rparr>))"

text \<open>
  A member whose type is an alias is converted as its underlying type under the name of the
  alias: \<^verbatim>\<open>copied := *underlying; copied.Name = inMemberType.Name\<close>. The copy is a
  new type, at the pointer \<open>fresh\<close>.
\<close>

definition aliasCopy :: "helpers \<Rightarrow> store \<Rightarrow> tptr \<Rightarrow> tptr \<Rightarrow> store \<times> tptr" where
  "aliasCopy hp h fresh memberType =
     (let underlying = unwrapAlias hp h memberType
      in if underlying \<noteq> memberType
         then (h(fresh := (h underlying)\<lparr>TypeName := TypeName (h memberType)\<rparr>), fresh)
         else (h, memberType))"

text \<open>\<^verbatim>\<open>types.Ref("unsafe", "Pointer")\<close>: a type that has a name only.\<close>

definition unsafePointerRef :: gtype where
  "unsafePointerRef =
     \<lparr>TypeName = \<lparr>Package = ''unsafe'', Name = ''Pointer''\<rparr>, Kind = Unknown,
      CommentLines = [], Members = [], Elem = None, Key = None, Underlying = None\<rparr>"

text \<open>The raw reinterpretation of a member, by its kind.\<close>

definition unsafeSnippet :: "kind \<Rightarrow> (string \<times> argval) list \<Rightarrow> snippet" where
  "unsafeSnippet k args =
     (if k = Pointer then
        Do (''out.$.name$ = ($.outType|'' @ rawNamer @ ''$)($.Pointer|'' @ rawNamer
              @ ''$(in.$.name$))\<newline>'') (AArgs args)
      else
        Do (''out.$.name$ = *(*$.outType|'' @ rawNamer @ ''$)($.Pointer|'' @ rawNamer
              @ ''$(&in.$.name$))\<newline>'') (AArgs args))"

text \<open>The call of a manual conversion function on a member.\<close>

definition manualCall :: "generator \<Rightarrow> (string \<times> argval) list \<Rightarrow> gtype \<Rightarrow> snippet list" where
  "manualCall g args function =
     [Do (''if err := $.function|'' @ rawNamer @ ''$(&in.$.name$, &out.$.name$''
            @ extraArgumentsString g @ ''); err != nil {\<newline>'')
         (AArgs (setArg args ''function'' (TypeVal (Some function)))),
      Do ''return err\<newline>'' ANil,
      Do ''}\<newline>'' ANil]"

text \<open>The branch of two members whose kinds differ.\<close>

definition inconvertibleFields ::
  "generator \<Rightarrow> helpers \<Rightarrow> store \<Rightarrow> tptr \<Rightarrow> tptr \<Rightarrow> tptr \<Rightarrow> tptr \<Rightarrow> member \<Rightarrow> member \<Rightarrow> res" where
  "inconvertibleFields g hp h inType outType inMemberType outMemberType inMember outMember =
     (case InconvertibleFieldsHandler (Options g) of
        None \<Rightarrow>
          klog [Warningf
                  ''%s.%s requires manual conversion: inconvertible types: %s VS %s for %s.%s''
                  [LName (TypeName (h inType)), LStr (MemberName inMember),
                   LName (TypeName (h inMemberType)), LName (TypeName (h outMemberType)),
                   LName (TypeName (h outType)), LStr (MemberName outMember)]]
      | Some handler \<Rightarrow>
          (case handler h (NewNamedVariable ''in'' (Some inType))
                  (NewNamedVariable ''out'' (Some outType)) inMember outMember of
             (written, e) \<Rightarrow> \<lparr>emitted = written, logged = [], errs = errlist e\<rparr>))"

text \<open>
  The three branches of the switch of \<^verbatim>\<open>doStruct\<close> for a struct, an alias and any
  other kind end with the same statement: the internal conversion function where the
  cross-package policy permits it, the external handler otherwise.
\<close>

definition internalOrExternal ::
  "generator \<Rightarrow> helpers \<Rightarrow> store \<Rightarrow> tptr \<Rightarrow> tptr \<Rightarrow> tptr \<Rightarrow> tptr \<Rightarrow> member \<Rightarrow> member
     \<Rightarrow> (string \<times> argval) list \<Rightarrow> res option" where
  "internalOrExternal g hp h inType outType inMemberType outMemberType inMember outMember args =
     (case convertibleOnlyWithinPackage g hp h (Some inMemberType) (Some outMemberType) of
        None \<Rightarrow> None
      | Some (True, lg) \<Rightarrow>
          Some (app_res (klog lg)
            (emit
              [Do (''if err := '' @ conversionFunctionNameTemplate hp publicImportTrackingNamer
                     @ ''(&in.$.name$, &out.$.name$'' @ extraArgumentsString g
                     @ ''); err != nil {\<newline>'') (AArgs args),
               Do ''return err\<newline>}\<newline>'' ANil]))
      | Some (False, lg) \<Rightarrow>
          Some (app_res (klog lg)
            (callExternalConversionsHandlerForStructField g hp h inType outType
               inMemberType outMemberType inMember outMember [])))"

text \<open>
  The store and the two member types of one iteration, after the copies of the aliases:
  \<^verbatim>\<open>inMemberType\<close> first, then \<^verbatim>\<open>outMemberType\<close>.
\<close>

definition inMemberTypeOf :: "helpers \<Rightarrow> store \<Rightarrow> member \<Rightarrow> tptr" where
  "inMemberTypeOf hp h inMember = snd (aliasCopy hp h CopiedIn (MemberType inMember))"

definition outMemberTypeOf :: "helpers \<Rightarrow> store \<Rightarrow> member \<Rightarrow> member \<Rightarrow> tptr" where
  "outMemberTypeOf hp h inMember outMember =
     snd (aliasCopy hp (fst (aliasCopy hp h CopiedIn (MemberType inMember))) CopiedOut
            (MemberType outMember))"

definition memberStore :: "helpers \<Rightarrow> store \<Rightarrow> member \<Rightarrow> member \<Rightarrow> store" where
  "memberStore hp h inMember outMember =
     fst (aliasCopy hp (fst (aliasCopy hp h CopiedIn (MemberType inMember))) CopiedOut
            (MemberType outMember))"

text \<open>
  The arguments of the templates of a member: \<^verbatim>\<open>argsFromType(...).With("name", ...)\<close>,
  to which the key \<^verbatim>\<open>Pointer\<close> is added as soon as the unsafe conversion is approved,
  whatever the kind.
\<close>

definition memberArgs ::
  "generator \<Rightarrow> helpers \<Rightarrow> store \<Rightarrow> member \<Rightarrow> member \<Rightarrow> (string \<times> argval) list" where
  "memberArgs g hp h inMember outMember =
     (let h2 = memberStore hp h inMember outMember;
          inMemberType = inMemberTypeOf hp h inMember;
          outMemberType = outMemberTypeOf hp h inMember outMember;
          args = With (argsFromType hp h2 (Some inMemberType) (Some outMemberType))
                   ''name'' (StrVal (MemberName inMember))
      in if useUnsafeConversion g h2 inMemberType outMemberType
         then With args ''Pointer'' (TypeVal (Some unsafePointerRef))
         else args)"

text \<open>
  \<^verbatim>\<open>generateFor\<close> and \<^verbatim>\<open>doStruct\<close> call each other. The loop of
  \<^verbatim>\<open>doStruct\<close> over the members is \<open>doStructMembers\<close>, and its body is cut in
  three at the two comments of the source: \<open>doStructMember\<close> up to the direct memory copy,
  \<open>doStructMemberManual\<close> for the check of a manual conversion function, and
  \<open>doStructMemberKind\<close> from ``If we can't auto-convert'' on. Every
  \<^verbatim>\<open>continue\<close> ends the body. The last two work in the store and on the member types
  that the first has computed. The errors that the nested call of
  \<^verbatim>\<open>generateFor\<close> returns are dropped, as in
  \<^verbatim>\<open>g.generateFor(inMemberType, outMemberType, sw)\<close>.
\<close>

function generateFor :: "generator \<Rightarrow> helpers \<Rightarrow> store \<Rightarrow> tptr \<Rightarrow> tptr \<Rightarrow> res option"
  and doStruct :: "generator \<Rightarrow> helpers \<Rightarrow> store \<Rightarrow> tptr \<Rightarrow> tptr \<Rightarrow> res option"
  and doStructMembers ::
    "generator \<Rightarrow> helpers \<Rightarrow> store \<Rightarrow> tptr \<Rightarrow> tptr \<Rightarrow> member list \<Rightarrow> res option"
  and doStructMember ::
    "generator \<Rightarrow> helpers \<Rightarrow> store \<Rightarrow> tptr \<Rightarrow> tptr \<Rightarrow> member \<Rightarrow> res option"
  and doStructMemberManual ::
    "generator \<Rightarrow> helpers \<Rightarrow> store \<Rightarrow> tptr \<Rightarrow> tptr \<Rightarrow> tptr \<Rightarrow> tptr \<Rightarrow> member \<Rightarrow> member
       \<Rightarrow> (string \<times> argval) list \<Rightarrow> res option"
  and doStructMemberKind ::
    "generator \<Rightarrow> helpers \<Rightarrow> store \<Rightarrow> tptr \<Rightarrow> tptr \<Rightarrow> tptr \<Rightarrow> tptr \<Rightarrow> member \<Rightarrow> member
       \<Rightarrow> (string \<times> argval) list \<Rightarrow> res option"
where
  "generateFor g hp h inType outType =
     (case (case Kind (h inType) of
              Builtin \<Rightarrow> Some (doBuiltin g hp h inType outType)
            | Map \<Rightarrow> doMap g hp h inType outType
            | Slice \<Rightarrow> doSlice g hp h inType outType
            | Struct \<Rightarrow> doStruct g hp h inType outType
            | Pointer \<Rightarrow> doPointer g hp h inType outType
            | Alias \<Rightarrow> Some (doAlias g hp h inType outType)
            | _ \<Rightarrow> Some (doUnknown g hp h inType outType)) of
        None \<Rightarrow> None
      | Some r \<Rightarrow>
          Some (app_res
            (klog [InfofV5 ''generating %v -> %v''
                     [LName (TypeName (h inType)), LName (TypeName (h outType))]]) r))"
| "doStruct g hp h inType outType =
     doStructMembers g hp h inType outType (Members (h inType))"
| "doStructMembers g hp h inType outType [] = Some (emit [])"
| "doStructMembers g hp h inType outType (inMember # rest) =
     (case doStructMember g hp h inType outType inMember of
        None \<Rightarrow> None
      | Some r \<Rightarrow>
          (case doStructMembers g hp h inType outType rest of
             None \<Rightarrow> None
           | Some rs \<Rightarrow> Some (app_res r rs)))"
| "doStructMember g hp h inType outType inMember =
     (if optedOut g hp (MemberCommentLines inMember) then
        Some (emit [Do (''// INFO: in.'' @ MemberName inMember
                          @ '' opted out of conversion generation\<newline>'') ANil])
      else
        (case findMember hp h outType (MemberName inMember) of
           None \<Rightarrow> Some (missingField g hp h inType outType inMember)
         | Some outMember \<Rightarrow>
             (let h2 = memberStore hp h inMember outMember;
                  inMemberType = inMemberTypeOf hp h inMember;
                  outMemberType = outMemberTypeOf hp h inMember outMember;
                  args = memberArgs g hp h inMember outMember;
                  k = Kind (h2 inMemberType)
              in if useUnsafeConversion g h2 inMemberType outMemberType
                    \<and> (k = Pointer \<or> k = Map \<or> k = Slice)
                 then Some (emit [unsafeSnippet k args])
                 else doStructMemberManual g hp h2 inType outType inMemberType outMemberType
                        inMember outMember args)))"
| "doStructMemberManual g hp h2 inType outType inMemberType outMemberType inMember outMember args =
     (case preexists g (Some (MemberType inMember)) (Some (MemberType outMember)) of
        None \<Rightarrow>
          doStructMemberKind g hp h2 inType outType inMemberType outMemberType
            inMember outMember args
      | Some function \<Rightarrow>
          if functionHasTag g hp h2 function ''drop'' then Some (emit [])
          else if \<not> functionHasTag g hp h2 function ''copy-only''
                  \<or> \<not> isFastConversion hp h2 inMemberType outMemberType then
            Some (emit (manualCall g args (h2 function)))
          else
            (case doStructMemberKind g hp h2 inType outType inMemberType outMemberType
                    inMember outMember args of
               None \<Rightarrow> None
             | Some r \<Rightarrow>
                 Some (app_res
                   (klog [InfofV5
                      ''Skipped function %s because it is copy-only and we can use direct assignment''
                      [LName (TypeName (h2 function))]])
                   r)))"
| "doStructMemberKind g hp h2 inType outType inMemberType outMemberType inMember outMember args =
     (let k = Kind (h2 inMemberType)
      in if k \<noteq> Kind (h2 outMemberType) then
           Some (inconvertibleFields g hp h2 inType outType inMemberType outMemberType
                   inMember outMember)
         else if k = Builtin then
           Some (emit
             [if inMemberType = outMemberType
              then Do ''out.$.name$ = in.$.name$\<newline>'' (AArgs args)
              else Do (''out.$.name$ = $.outType|'' @ rawNamer @ ''$(in.$.name$)\<newline>'')
                     (AArgs args)])
         else if k = Map \<or> k = Slice \<or> k = Pointer then
           (if isDirectlyAssignable hp h2 (Some inMemberType) (Some outMemberType) then
              Some (emit [Do ''out.$.name$ = in.$.name$\<newline>'' (AArgs args)])
            else
              (case generateFor g hp h2 inMemberType outMemberType of
                 None \<Rightarrow> None
               | Some nested \<Rightarrow>
                   Some (seq_res
                     [emit
                        [Do ''if in.$.name$ != nil {\<newline>'' (AArgs args),
                         Do ''in, out := &in.$.name$, &out.$.name$\<newline>'' (AArgs args)],
                      nested\<lparr>errs := []\<rparr>,
                      emit
                        [Do ''} else {\<newline>'' ANil,
                         Do ''out.$.name$ = nil\<newline>'' (AArgs args),
                         Do ''}\<newline>'' ANil]])))
         else if k = Struct then
           (if isDirectlyAssignable hp h2 (Some inMemberType) (Some outMemberType) then
              Some (emit [Do ''out.$.name$ = in.$.name$\<newline>'' (AArgs args)])
            else
              internalOrExternal g hp h2 inType outType inMemberType outMemberType
                inMember outMember args)
         else if k = Alias then
           (if isDirectlyAssignable hp h2 (Some inMemberType) (Some outMemberType) then
              Some (emit
                [if inMemberType = outMemberType
                 then Do ''out.$.name$ = in.$.name$\<newline>'' (AArgs args)
                 else Do (''out.$.name$ = $.outType|'' @ rawNamer @ ''$(in.$.name$)\<newline>'')
                        (AArgs args)])
            else
              internalOrExternal g hp h2 inType outType inMemberType outMemberType
                inMember outMember args)
         else
           internalOrExternal g hp h2 inType outType inMemberType outMemberType
             inMember outMember args)"
  by pat_completeness auto

termination
  apply (relation "measure (\<lambda>x. case x of
      Inl (Inl (g, hp, h, i, ou)) \<Rightarrow>
        (if Kind (h i) = Struct then length (Members (h i)) + 6 else 0)
    | Inl (Inr (Inl (g, hp, h, i, ou))) \<Rightarrow> length (Members (h i)) + 5
    | Inl (Inr (Inr (g, hp, h, i, ou, ms))) \<Rightarrow> length ms + 4
    | Inr (Inl (g, hp, h, i, ou, m)) \<Rightarrow> 3
    | Inr (Inr (Inl (g, hp, h, i, ou, imt, omt, m, m', args))) \<Rightarrow> 2
    | Inr (Inr (Inr (g, hp, h, i, ou, imt, omt, m, m', args))) \<Rightarrow> 1)")
        apply auto
  done

declare generateFor.simps [simp del]
declare doStruct.simps [simp del]
declare doStructMember.simps [simp del]
declare doStructMemberManual.simps [simp del]
declare doStructMemberKind.simps [simp del]

section \<open>The two functions of a pair\<close>

definition writeConversionFunctionSignature ::
  "generator \<Rightarrow> helpers \<Rightarrow> store \<Rightarrow> tptr \<Rightarrow> tptr \<Rightarrow> bool \<Rightarrow> snippet list" where
  "writeConversionFunctionSignature g hp h inType outType includeArgsTypes =
     (let args = AArgs (argsFromType hp h (Some inType) (Some outType))
      in [Do (conversionFunctionNameTemplate hp publicImportTrackingNamer) args,
          Do ''(in'' ANil]
         @ (if includeArgsTypes then [Do ('' *$.inType|'' @ rawNamer @ ''$'') args] else [])
         @ [Do '', out'' ANil]
         @ (if includeArgsTypes then [Do ('' *$.outType|'' @ rawNamer @ ''$'') args] else [])
         @ concat (map
             (\<lambda>namedArgument.
                Do ('', '' @ fst namedArgument) ANil
                # (if includeArgsTypes
                   then [Do ('' $.|'' @ rawNamer @ ''$'') (AType (Some (h (snd namedArgument))))]
                   else []))
             (additionalConversionArguments (ManualConversionsTracker (Options g))))
         @ [Do '')'' ANil]
         @ (if includeArgsTypes then [Do '' error'' ANil] else []))"

text \<open>The private function \<^verbatim>\<open>auto...\<close> around a body, and the public wrapper.\<close>

definition privateFunction ::
  "generator \<Rightarrow> helpers \<Rightarrow> store \<Rightarrow> tptr \<Rightarrow> tptr \<Rightarrow> res \<Rightarrow> res" where
  "privateFunction g hp h inType outType body =
     seq_res
       [emit (Do ''func auto'' ANil
              # writeConversionFunctionSignature g hp h inType outType True
              @ [Do '' {\<newline>'' ANil]),
        body\<lparr>errs := []\<rparr>,
        emit [Do ''return nil\<newline>'' ANil, Do ''}\<newline>\<newline>'' ANil]]"

definition publicFunction ::
  "generator \<Rightarrow> helpers \<Rightarrow> store \<Rightarrow> tptr \<Rightarrow> tptr \<Rightarrow> snippet list" where
  "publicFunction g hp h inType outType =
     Do (''// '' @ conversionFunctionNameTemplate hp publicImportTrackingNamer
           @ '' is an autogenerated conversion function.\<newline>func '')
        (AArgs (argsFromType hp h (Some inType) (Some outType)))
     # writeConversionFunctionSignature g hp h inType outType True
     @ [Do '' {\<newline>return auto'' ANil]
     @ writeConversionFunctionSignature g hp h inType outType False
     @ [Do ''\<newline>}\<newline>\<newline>'' ANil]"

text \<open>
  \<^verbatim>\<open>generateConversion\<close> returns nothing: the errors of the body only decide what it
  writes next.
\<close>

definition generateConversion ::
  "generator \<Rightarrow> helpers \<Rightarrow> store \<Rightarrow> tptr \<Rightarrow> tptr \<Rightarrow> res option" where
  "generateConversion g hp h inType outType =
     (case generateFor g hp h inType outType of
        None \<Rightarrow> None
      | Some body \<Rightarrow>
          Some
            (let errors = errs body;
                 private = privateFunction g hp h inType outType body
             in if preexists g (Some inType) (Some outType) \<noteq> None then private
                else if noPublicFun g hp h inType \<or> noPublicFun g hp h outType then private
                else if length errors = 0 then
                  app_res private (emit (publicFunction g hp h inType outType))
                else
                  app_res private
                    (klog
                      ([Errorf
                          ''Warning: could not find nor generate a final Conversion function for %v -> %v''
                          [LName (TypeName (h inType)), LName (TypeName (h outType))],
                        Errorf ''  you need to add manual conversions:'' []]
                       @ map (\<lambda>e. Errorf ''      - %v'' [LErr e]) errors))))"

section \<open>The peer resolver\<close>

text \<open>
  A package of the universe, by its map \<^verbatim>\<open>Types\<close>; \<^verbatim>\<open>context.Universe\<close> maps
  a path to its package, or to \<^verbatim>\<open>nil\<close>.
\<close>

record package =
  Types :: "string \<Rightarrow> tptr option"

definition Has :: "package \<Rightarrow> string \<Rightarrow> bool" where
  "Has p n = (Types p n \<noteq> None)"

type_synonym universe = "string \<Rightarrow> package option"

text \<open>The loop of \<^verbatim>\<open>GetPeerTypeFor\<close> over the peer packages, left at the first match.\<close>

fun GetPeerTypeFor_loop :: "universe \<Rightarrow> string list \<Rightarrow> string \<Rightarrow> tptr option" where
  "GetPeerTypeFor_loop U [] peerName = None"
| "GetPeerTypeFor_loop U (peerPkgPath # rest) peerName =
     (case U peerPkgPath of
        None \<Rightarrow> GetPeerTypeFor_loop U rest peerName
      | Some peerPkg \<Rightarrow>
          if Has peerPkg peerName then Types peerPkg peerName
          else GetPeerTypeFor_loop U rest peerName)"

text \<open>
  The name that \<^verbatim>\<open>GetPeerTypeFor\<close> looks for: the one of a \<^verbatim>\<open>peerName\<close>
  option that is present and not empty, or else the name of the type.
\<close>

definition customPeerName :: "generator \<Rightarrow> helpers \<Rightarrow> store \<Rightarrow> tptr \<Rightarrow> bool" where
  "customPeerName g hp h t =
     (case hasTagOption g hp (CommentLines (h t)) ''peerName'' of
        (present, name) \<Rightarrow> present \<and> length name \<noteq> 0)"

definition peerNameFor :: "generator \<Rightarrow> helpers \<Rightarrow> store \<Rightarrow> tptr \<Rightarrow> string" where
  "peerNameFor g hp h t =
     (if customPeerName g hp h t
      then snd (hasTagOption g hp (CommentLines (h t)) ''peerName'')
      else Name (TypeName (h t)))"

text \<open>
  \<^verbatim>\<open>GetPeerTypeFor\<close> returns the peer type, and updates the cache
  \<^verbatim>\<open>g.peerTypes\<close>: the result is the peer type, the generator after the call and what
  was logged.
\<close>

definition GetPeerTypeFor ::
  "generator \<Rightarrow> helpers \<Rightarrow> universe \<Rightarrow> store \<Rightarrow> tptr
     \<Rightarrow> tptr option \<times> generator \<times> logentry list" where
  "GetPeerTypeFor g hp U h t =
     (case peerTypes g (Name (TypeName (h t))) of
        Some peerType \<Rightarrow> (peerType, g, [])
      | None \<Rightarrow>
          (let peerName = peerNameFor g hp h t;
               peerType = GetPeerTypeFor_loop U (peerPackages g) peerName
           in (peerType,
               g\<lparr>peerTypes := (peerTypes g)(Name (TypeName (h t)) \<mapsto> peerType)\<rparr>,
               (if customPeerName g hp h t
                then [InfofV5 ''Using custom peer name %q for input type %s''
                        [LStr peerName, LName (TypeName (h t))]]
                else [])
               @ (if peerType \<noteq> None
                  then [InfofV5 ''Found peer type %s for input type %s''
                          [ltype h peerType, LName (TypeName (h t))]]
                  else []))))"

section \<open>The handlers of the converter\<close>

text \<open>
  \<^verbatim>\<open>ErrorMissingFieldHandler\<close> of the converter package, the handler that the flag
  \<^verbatim>\<open>no-public-conversion-function-on-error\<close> installs.
\<close>

definition ErrorMissingFieldHandler ::
  "store \<Rightarrow> namedVar \<Rightarrow> namedVar \<Rightarrow> member \<Rightarrow> snippet list \<times> err option" where
  "ErrorMissingFieldHandler h inVar outVar m =
     ([Do (''// WARNING: in.'' @ MemberName m
             @ '' requires manual conversion: does not exist in peer-type\<newline>'') ANil],
      Some (''field '' @ MemberName m @ '' requires manual conversion''))"

section \<open>Well-formed stores\<close>

text \<open>
  In the type graph that gengo builds, a map, a slice and a pointer have an element type.
\<close>

definition wfStore :: "store \<Rightarrow> bool" where
  "wfStore h =
     (\<forall>p. Kind (h p) = Map \<or> Kind (h p) = Slice \<or> Kind (h p) = Pointer \<longrightarrow> Elem (h p) \<noteq> None)"

section \<open>The functions that are not in the sources, for the worked examples\<close>

text \<open>
  Modelled from the spec: the layout equivalence arbiter (the method
  \<^verbatim>\<open>canUseUnsafeConversion\<close> of \<^verbatim>\<open>unsafeConversionArbitrator\<close>) is missing
  from the sources. The spec: ``Two types are layout-equivalent iff, recursively, every
  member of A has a same-position counterpart in B of layout-equivalent type, and no
  intervening manual conversion changes the bits (a non-copy-only manual override
  disqualifies equivalence). Pointer/Sequence/Associative wrappers are equivalent iff their
  element types are.'' The recursion is cut at a depth, where the answer is the conservative
  one. The argument \<open>manual\<close> tells whether a manual conversion function that is not
  copy-only exists for a pair.
\<close>

fun canUseUnsafeConversion ::
  "nat \<Rightarrow> (tptr \<Rightarrow> tptr \<Rightarrow> bool) \<Rightarrow> store \<Rightarrow> tptr \<Rightarrow> tptr \<Rightarrow> bool" where
  "canUseUnsafeConversion 0 manual h a b = False"
| "canUseUnsafeConversion (Suc n) manual h a b =
     (if manual a b then False
      else if a = b then True
      else if Kind (h a) \<noteq> Kind (h b) then False
      else if Kind (h a) = Struct then
        length (Members (h a)) = length (Members (h b))
        \<and> list_all
            (\<lambda>mm. canUseUnsafeConversion n manual h (MemberType (fst mm)) (MemberType (snd mm)))
            (zip (Members (h a)) (Members (h b)))
      else if Kind (h a) = Pointer \<or> Kind (h a) = Slice then
        (case (Elem (h a), Elem (h b)) of
           (Some ea, Some eb) \<Rightarrow> canUseUnsafeConversion n manual h ea eb
         | _ \<Rightarrow> False)
      else if Kind (h a) = Map then
        (case (Key (h a), Key (h b), Elem (h a), Elem (h b)) of
           (Some ka, Some kb, Some ea, Some eb) \<Rightarrow>
             canUseUnsafeConversion n manual h ka kb \<and> canUseUnsafeConversion n manual h ea eb
         | _ \<Rightarrow> False)
      else False)"

text \<open>
  Modelled from the spec: \<^verbatim>\<open>types.ExtractCommentTags\<close> of gengo is not part of the
  repository. The spec gives the annotations as lines \<^verbatim>\<open>tag=value\<close> after the marker
  \<^verbatim>\<open>+\<close>; a line without \<^verbatim>\<open>=\<close> has the empty value.
\<close>

fun splitTag :: "string \<Rightarrow> string \<times> string" where
  "splitTag [] = ([], [])"
| "splitTag (c # cs) =
     (if c = CHR ''='' then ([], cs)
      else (case splitTag cs of (k, v) \<Rightarrow> (c # k, v)))"

definition trimSpaces :: "string \<Rightarrow> string" where
  "trimSpaces s =
     rev (dropWhile (\<lambda>c. c = CHR '' '') (rev (dropWhile (\<lambda>c. c = CHR '' '') s)))"

definition exampleExtractCommentTags :: "string \<Rightarrow> string list \<Rightarrow> string \<Rightarrow> string list" where
  "exampleExtractCommentTags marker lines key =
     concat (map
       (\<lambda>line.
          let l = trimSpaces line
          in if l = [] \<or> take (length marker) l \<noteq> marker then []
             else (case splitTag (drop (length marker) l) of
                     (k, v) \<Rightarrow> if k = key then [v] else []))
       lines)"

text \<open>
  Modelled from the spec: \<^verbatim>\<open>unwrapAlias\<close> is missing from the sources. The spec:
  ``NamedAlias(Underlying)'', ``treated as its underlying shape''. The chain of the
  underlying types is followed up to a depth, which no alias of the examples reaches.
\<close>

fun unwrapAliasN :: "nat \<Rightarrow> store \<Rightarrow> tptr \<Rightarrow> tptr" where
  "unwrapAliasN 0 h p = p"
| "unwrapAliasN (Suc n) h p =
     (if Kind (h p) = Alias
      then (case Underlying (h p) of None \<Rightarrow> p | Some u \<Rightarrow> unwrapAliasN n h u)
      else p)"

text \<open>
  Modelled from the spec: the other helpers of the package are missing from the sources, and
  the spec has their names only (``directly assignable'', ``same-named target member'',
  ``non-exported name'', the ``directive set'' of a manual function). Two types are directly
  assignable when they are the same type once their aliases are unwrapped. A conversion is
  fast for builtins, and for maps, slices, pointers, structs and aliases that are directly
  assignable. A function has a directive when a line of its comments gives it. A name is
  private when it does not start with a capital letter.
\<close>

definition exampleHelpers :: helpers where
  "exampleHelpers =
     \<lparr>ExtractCommentTags = exampleExtractCommentTags,
      IsPrivateGoName =
        (\<lambda>n. case n of [] \<Rightarrow> True | c # _ \<Rightarrow> c \<notin> set ''ABCDEFGHIJKLMNOPQRSTUVWXYZ''),
      isDirectlyAssignable =
        (\<lambda>h a b. map_option (unwrapAliasN 8 h) a = map_option (unwrapAliasN 8 h) b),
      isFastConversion =
        (\<lambda>h a b. Kind (h a) = Builtin
                  \<or> (Kind (h a) \<in> {Map, Slice, Pointer, Struct, Alias}
                      \<and> unwrapAliasN 8 h a = unwrapAliasN 8 h b)),
      unwrapAlias = unwrapAliasN 8,
      findMember = (\<lambda>h t n. find (\<lambda>m. MemberName m = n) (Members (h t))),
      functionHasTag_of =
        (\<lambda>h f tagName v. v \<in> set (exampleExtractCommentTags ''+'' (CommentLines (h f)) tagName)),
      argsFromType =
        (\<lambda>h a b. [(''inType'', TypeVal (tval h a)), (''outType'', TypeVal (tval h b))]),
      conversionFunctionNameTemplate =
        (\<lambda>namer. ''Convert_$.inType|'' @ namer @ ''$_To_$.outType|'' @ namer @ ''$'')\<rparr>"

section \<open>A universe of two packages, for the worked examples\<close>

text \<open>
  \<^verbatim>\<open>
  package a                                package b
  type Same struct { X string }            type Same struct { X string }
  type Inner struct { X string }           type Inner struct { Y int32 }
  type Outer struct {                      type Outer struct {
      Foo   *Same                              Foo   *Same
      Inner Inner                              Inner Inner
      Gone  string                         }
      // +conversion-gen=false
      Skipped string
  }
  type Quiet struct {                      type Quiet struct {}
      // +conversion-gen=false
      Skipped string
  }
  // +conversion-gen=peerName:             type Lone struct {}
  type Lone struct {}
  type Holder struct { Same Same }         type Holder struct { Same Same }
  type Labels map[string]string            type Labels map[string]string
  type Pair struct { X string }            type Pair struct { X string }
  type Tagged struct {                     type Tagged struct {
      Labels Labels                            Labels Labels
      Pair   Pair                              Pair   Pair
  }                                        }
                                           type Iface interface{}

  // +conversion-gen=drop
  func Convert_a_Labels_To_b_Labels(in *a.Labels, out *b.Labels) error
  // +conversion-gen=copy-only
  func Convert_a_Inner_To_b_Inner(in *a.Inner, out *b.Inner) error
  // +conversion-gen=copy-only
  func Convert_string_To_string(in *string, out *string) error
  // +conversion-gen=copy-only
  func Convert_a_Pair_To_b_Pair(in *a.Pair, out *b.Pair) error
  \<close>
\<close>

definition mkType :: "string \<Rightarrow> string \<Rightarrow> kind \<Rightarrow> gtype" where
  "mkType pkg n k =
     \<lparr>TypeName = \<lparr>Package = pkg, Name = n\<rparr>, Kind = k, CommentLines = [], Members = [],
      Elem = None, Key = None, Underlying = None\<rparr>"

definition mkMember :: "string \<Rightarrow> string list \<Rightarrow> tptr \<Rightarrow> member" where
  "mkMember n c t = \<lparr>MemberName = n, MemberCommentLines = c, MemberType = t\<rparr>"

definition tString :: tptr where "tString = Univ 0"
definition tInt32 :: tptr where "tInt32 = Univ 1"
definition tMapStringString :: tptr where "tMapStringString = Univ 2"
definition tMapInt32String :: tptr where "tMapInt32String = Univ 3"
definition tSliceString :: tptr where "tSliceString = Univ 4"
definition aSame :: tptr where "aSame = Univ 5"
definition bSame :: tptr where "bSame = Univ 6"
definition aPtrSame :: tptr where "aPtrSame = Univ 7"
definition bPtrSame :: tptr where "bPtrSame = Univ 8"
definition aInner :: tptr where "aInner = Univ 9"
definition bInner :: tptr where "bInner = Univ 10"
definition aOuter :: tptr where "aOuter = Univ 11"
definition bOuter :: tptr where "bOuter = Univ 12"
definition aQuiet :: tptr where "aQuiet = Univ 13"
definition bQuiet :: tptr where "bQuiet = Univ 14"
definition bIface :: tptr where "bIface = Univ 15"
definition fnLabels :: tptr where "fnLabels = Univ 16"
definition fnInner :: tptr where "fnInner = Univ 17"
definition aLone :: tptr where "aLone = Univ 18"
definition bLone :: tptr where "bLone = Univ 19"
definition aHolder :: tptr where "aHolder = Univ 20"
definition bHolder :: tptr where "bHolder = Univ 21"
definition fnString :: tptr where "fnString = Univ 22"
definition aLabels :: tptr where "aLabels = Univ 23"
definition bLabels :: tptr where "bLabels = Univ 24"
definition aTagged :: tptr where "aTagged = Univ 25"
definition bTagged :: tptr where "bTagged = Univ 26"
definition aPair :: tptr where "aPair = Univ 27"
definition bPair :: tptr where "bPair = Univ 28"
definition fnPair :: tptr where "fnPair = Univ 29"

definition mFoo :: member where "mFoo = mkMember ''Foo'' [] aPtrSame"
definition mInner :: member where "mInner = mkMember ''Inner'' [] aInner"
definition mGone :: member where "mGone = mkMember ''Gone'' [] tString"
definition mSame :: member where "mSame = mkMember ''Same'' [] aSame"
definition mX :: member where "mX = mkMember ''X'' [] tString"
definition mLabels :: member where "mLabels = mkMember ''Labels'' [] aLabels"
definition mPair :: member where "mPair = mkMember ''Pair'' [] aPair"
definition mSkipped :: member where
  "mSkipped = mkMember ''Skipped'' [''+conversion-gen=false''] tString"

definition exampleStore :: store where
  "exampleStore p =
     (case p of
        Univ n \<Rightarrow>
          if n = 0 then mkType [] ''string'' Builtin
          else if n = 1 then mkType [] ''int32'' Builtin
          else if n = 2 then
            (mkType [] ''map[string]string'' Map)\<lparr>Elem := Some tString, Key := Some tString\<rparr>
          else if n = 3 then
            (mkType [] ''map[int32]string'' Map)\<lparr>Elem := Some tString, Key := Some tInt32\<rparr>
          else if n = 4 then (mkType [] ''[]string'' Slice)\<lparr>Elem := Some tString\<rparr>
          else if n = 5 then
            (mkType ''a'' ''Same'' Struct)\<lparr>Members := [mX]\<rparr>
          else if n = 6 then
            (mkType ''b'' ''Same'' Struct)\<lparr>Members := [mkMember ''X'' [] tString]\<rparr>
          else if n = 7 then (mkType [] ''*a.Same'' Pointer)\<lparr>Elem := Some aSame\<rparr>
          else if n = 8 then (mkType [] ''*b.Same'' Pointer)\<lparr>Elem := Some bSame\<rparr>
          else if n = 9 then
            (mkType ''a'' ''Inner'' Struct)\<lparr>Members := [mkMember ''X'' [] tString]\<rparr>
          else if n = 10 then
            (mkType ''b'' ''Inner'' Struct)\<lparr>Members := [mkMember ''Y'' [] tInt32]\<rparr>
          else if n = 11 then
            (mkType ''a'' ''Outer'' Struct)\<lparr>Members := [mFoo, mInner, mGone, mSkipped]\<rparr>
          else if n = 12 then
            (mkType ''b'' ''Outer'' Struct)
              \<lparr>Members := [mkMember ''Foo'' [] bPtrSame, mkMember ''Inner'' [] bInner]\<rparr>
          else if n = 13 then (mkType ''a'' ''Quiet'' Struct)\<lparr>Members := [mSkipped]\<rparr>
          else if n = 14 then mkType ''b'' ''Quiet'' Struct
          else if n = 15 then mkType ''b'' ''Iface'' Interface
          else if n = 16 then
            (mkType ''b'' ''Convert_a_Labels_To_b_Labels'' DeclarationOf)
              \<lparr>CommentLines := [''+conversion-gen=drop'']\<rparr>
          else if n = 17 then
            (mkType ''b'' ''Convert_a_Inner_To_b_Inner'' DeclarationOf)
              \<lparr>CommentLines := [''+conversion-gen=copy-only'']\<rparr>
          else if n = 18 then
            (mkType ''a'' ''Lone'' Struct)\<lparr>CommentLines := [''+conversion-gen=peerName:'']\<rparr>
          else if n = 19 then mkType ''b'' ''Lone'' Struct
          else if n = 20 then (mkType ''a'' ''Holder'' Struct)\<lparr>Members := [mSame]\<rparr>
          else if n = 21 then
            (mkType ''b'' ''Holder'' Struct)\<lparr>Members := [mkMember ''Same'' [] bSame]\<rparr>
          else if n = 22 then
            (mkType ''b'' ''Convert_string_To_string'' DeclarationOf)
              \<lparr>CommentLines := [''+conversion-gen=copy-only'']\<rparr>
          else if n = 23 then
            (mkType ''a'' ''Labels'' Alias)\<lparr>Underlying := Some tMapStringString\<rparr>
          else if n = 24 then
            (mkType ''b'' ''Labels'' Alias)\<lparr>Underlying := Some tMapStringString\<rparr>
          else if n = 25 then
            (mkType ''a'' ''Tagged'' Struct)\<lparr>Members := [mLabels, mPair]\<rparr>
          else if n = 26 then
            (mkType ''b'' ''Tagged'' Struct)
              \<lparr>Members := [mkMember ''Labels'' [] bLabels, mkMember ''Pair'' [] bPair]\<rparr>
          else if n = 27 then (mkType ''a'' ''Pair'' Struct)\<lparr>Members := [mX]\<rparr>
          else if n = 28 then
            (mkType ''b'' ''Pair'' Struct)\<lparr>Members := [mkMember ''X'' [] tString]\<rparr>
          else if n = 29 then
            (mkType ''b'' ''Convert_a_Pair_To_b_Pair'' DeclarationOf)
              \<lparr>CommentLines := [''+conversion-gen=copy-only'']\<rparr>
          else mkType [] [] Unknown
      | _ \<Rightarrow> mkType [] [] Unknown)"

text \<open>The index of the tracker: the four manual conversion functions of package b.\<close>

definition exampleTracker :: tracker where
  "exampleTracker =
     \<lparr>preexists_of =
        (\<lambda>i ou. if i = Some aLabels \<and> ou = Some bLabels then Some fnLabels
                 else if i = Some aInner \<and> ou = Some bInner then Some fnInner
                 else if i = Some tString \<and> ou = Some tString then Some fnString
                 else if i = Some aPair \<and> ou = Some bPair then Some fnPair
                 else None),
      additionalConversionArguments = []\<rparr>"

definition exampleOptions :: options where
  "exampleOptions =
     \<lparr>ManualConversionsTracker = exampleTracker,
      NoUnsafeConversions = False,
      TagName = ''conversion-gen'',
      FunctionTagName = ''conversion-gen'',
      MissingFieldsHandler = None,
      InconvertibleFieldsHandler = None,
      UnsupportedTypesHandler = None,
      ExternalConversionsHandler = None\<rparr>"

text \<open>
  The generator of package a with the peer package b. Its arbiter disqualifies a pair that
  has a manual conversion function unless the function is copy-only.
\<close>

definition exampleGenerator :: generator where
  "exampleGenerator =
     \<lparr>Options = exampleOptions,
      typesPackage = ''a'',
      outputPackage = ''a'',
      peerPackages = [''c'', ''b''],
      unsafeConversionArbitrator =
        (\<lambda>h. canUseUnsafeConversion 8
           (\<lambda>x y. case preexists_of exampleTracker (Some x) (Some y) of
                     None \<Rightarrow> False
                   | Some f \<Rightarrow>
                       \<not> functionHasTag_of exampleHelpers h f ''conversion-gen'' ''copy-only'')
           h),
      peerTypes = Map.empty\<rparr>"

text \<open>The same generator with the unsafe conversions disabled.\<close>

definition safeGenerator :: generator where
  "safeGenerator =
     exampleGenerator\<lparr>Options := exampleOptions\<lparr>NoUnsafeConversions := True\<rparr>\<rparr>"

text \<open>The same generator with the handler of missing fields of the converter.\<close>

definition strictGenerator :: generator where
  "strictGenerator =
     exampleGenerator
       \<lparr>Options := exampleOptions\<lparr>MissingFieldsHandler := Some ErrorMissingFieldHandler\<rparr>\<rparr>"

definition exampleUniverse :: universe where
  "exampleUniverse path =
     (if path = ''b'' then
        Some \<lparr>Types =
          (\<lambda>n. if n = ''Same'' then Some bSame
                else if n = ''Inner'' then Some bInner
                else if n = ''Outer'' then Some bOuter
                else if n = ''Quiet'' then Some bQuiet
                else if n = ''Lone'' then Some bLone
                else if n = ''Holder'' then Some bHolder
                else if n = ''Labels'' then Some bLabels
                else if n = ''Tagged'' then Some bTagged
                else if n = ''Pair'' then Some bPair
                else if n = ''Iface'' then Some bIface
                else None)\<rparr>
      else if path = ''a'' then
        Some \<lparr>Types =
          (\<lambda>n. if n = ''Same'' then Some aSame
                else if n = ''Inner'' then Some aInner
                else if n = ''Outer'' then Some aOuter
                else if n = ''Quiet'' then Some aQuiet
                else if n = ''Lone'' then Some aLone
                else if n = ''Holder'' then Some aHolder
                else if n = ''Labels'' then Some aLabels
                else if n = ''Tagged'' then Some aTagged
                else if n = ''Pair'' then Some aPair
                else None)\<rparr>
      else None)"

section \<open>The two sides of the cross-package policy\<close>

text \<open>
  The side that \<^verbatim>\<open>convertibleOnlyWithinPackage\<close> examines (its variable
  \<^verbatim>\<open>t\<close>): the source type when it belongs to the types package, the target type
  otherwise; and the other side (its variable \<^verbatim>\<open>other\<close>).
\<close>

definition homeSide :: "generator \<Rightarrow> store \<Rightarrow> tptr \<Rightarrow> tptr \<Rightarrow> tptr" where
  "homeSide g h inType outType =
     (if Package (TypeName (h inType)) = typesPackage g then inType else outType)"

definition otherSide :: "generator \<Rightarrow> store \<Rightarrow> tptr \<Rightarrow> tptr \<Rightarrow> tptr" where
  "otherSide g h inType outType =
     (if Package (TypeName (h inType)) = typesPackage g then outType else inType)"

section \<open>Types that are not aliases\<close>

lemma unwrapAliasN_id: "Kind (h p) \<noteq> Alias \<Longrightarrow> unwrapAliasN n h p = p"
  by (cases n) simp_all

section \<open>Results, as they are appended\<close>

lemma seq_res_Nil: "seq_res [] = emit []"
  by (simp add: seq_res_def)

lemma seq_res_Cons: "seq_res (r # rs) = app_res r (seq_res rs)"
  by (simp add: seq_res_def)

lemma emitted_app_res: "emitted (app_res a b) = emitted a @ emitted b"
  by (simp add: app_res_def)

lemma logged_app_res: "logged (app_res a b) = logged a @ logged b"
  by (simp add: app_res_def)

lemma errs_app_res: "errs (app_res a b) = errs a @ errs b"
  by (simp add: app_res_def)

lemma res_emit: "emitted (emit s) = s" "logged (emit s) = []" "errs (emit s) = []"
  by (simp_all add: emit_def)

lemma res_klog: "emitted (klog l) = []" "logged (klog l) = l" "errs (klog l) = []"
  by (simp_all add: klog_def)

section \<open>C4: the dispatch of generateFor\<close>

text \<open>
  C4, as amended. \<^verbatim>\<open>generateFor\<close> logs the pair and hands it to the handler that a
  closed switch on the kind of the \<^emph>\<open>source\<close> type (\<^verbatim>\<open>inType.Kind\<close>) selects:
  \<^verbatim>\<open>doBuiltin\<close>, \<^verbatim>\<open>doMap\<close>, \<^verbatim>\<open>doSlice\<close>, \<^verbatim>\<open>doStruct\<close>,
  \<^verbatim>\<open>doPointer\<close>, \<^verbatim>\<open>doAlias\<close>, and \<^verbatim>\<open>doUnknown\<close> for every other kind. The
  kind of the target type takes no part in the choice.
\<close>

theorem generateFor_switch_on_source_kind:
  "generateFor g hp h inType outType =
     map_option
       (app_res (klog [InfofV5 ''generating %v -> %v''
                         [LName (TypeName (h inType)), LName (TypeName (h outType))]]))
       (if Kind (h inType) = Builtin then Some (doBuiltin g hp h inType outType)
        else if Kind (h inType) = Map then doMap g hp h inType outType
        else if Kind (h inType) = Slice then doSlice g hp h inType outType
        else if Kind (h inType) = Struct then doStruct g hp h inType outType
        else if Kind (h inType) = Pointer then doPointer g hp h inType outType
        else if Kind (h inType) = Alias then Some (doAlias g hp h inType outType)
        else Some (doUnknown g hp h inType outType))"
  by (cases "Kind (h inType)") (simp_all add: generateFor.simps split: option.splits)

text \<open>
  C4 at work: from the builtin \<^verbatim>\<open>string\<close> to the struct \<^verbatim>\<open>a.Inner\<close> the handler
  is \<^verbatim>\<open>doBuiltin\<close>, which writes one conversion.
\<close>

theorem generateFor_switch_on_source_kind_witness:
  "generateFor exampleGenerator exampleHelpers exampleStore tString aInner =
     Some \<lparr>emitted =
              [Do ''*out = $.|ConversionGenerator_raw$(*in)\<newline>''
                 (AType (Some (exampleStore aInner)))],
           logged =
              [InfofV5 ''generating %v -> %v''
                 [LName \<lparr>Package = [], Name = ''string''\<rparr>,
                  LName \<lparr>Package = ''a'', Name = ''Inner''\<rparr>]],
           errs = []\<rparr>"
  using generateFor_switch_on_source_kind
          [of exampleGenerator exampleHelpers exampleStore tString aInner]
  by (simp add: exampleStore_def mkType_def doBuiltin_def rawNamer_def
        app_res_def klog_def emit_def tString_def aInner_def)

text \<open>
  C4 as stated fails: were the switch on the kind of the target type, the pair
  (\<^verbatim>\<open>string\<close>, \<^verbatim>\<open>a.Inner\<close>), whose target is a struct, would go to
  \<^verbatim>\<open>doStruct\<close>. It goes to \<^verbatim>\<open>doBuiltin\<close>, and the two handlers differ on it.
\<close>

theorem generateFor_switch_on_target_kind_counterexample:
  "Kind (exampleStore tString) = Builtin \<and> Kind (exampleStore aInner) = Struct
   \<and> generateFor exampleGenerator exampleHelpers exampleStore tString aInner
       = map_option
           (app_res (klog [InfofV5 ''generating %v -> %v''
                             [LName (TypeName (exampleStore tString)),
                              LName (TypeName (exampleStore aInner))]]))
           (Some (doBuiltin exampleGenerator exampleHelpers exampleStore tString aInner))
   \<and> generateFor exampleGenerator exampleHelpers exampleStore tString aInner
       \<noteq> map_option
           (app_res (klog [InfofV5 ''generating %v -> %v''
                             [LName (TypeName (exampleStore tString)),
                              LName (TypeName (exampleStore aInner))]]))
           (doStruct exampleGenerator exampleHelpers exampleStore tString aInner)"
  by (simp add: generateFor.simps doStruct.simps exampleStore_def mkType_def doBuiltin_def
        app_res_def klog_def emit_def tString_def aInner_def)

section \<open>C5: bulk copy and loops\<close>

lemma doMap_always_loops:
  assumes "doMap g hp h inType outType = Some r"
  shows "\<exists>rest. emitted r =
            Do (''*out = make($.|'' @ rawNamer @ ''$, len(*in))\<newline>'') (AType (Some (h outType)))
            # (if isDirectlyAssignable hp h (Key (h inType)) (Key (h outType))
               then Do ''for key, val := range *in {\<newline>'' ANil
               else Do ''for range *in {\<newline>'' ANil)
            # rest"
  using assms
  by (auto simp: doMap_def Let_def seq_res_Cons seq_res_Nil emitted_app_res res_emit res_klog
      split: if_splits option.splits prod.splits bool.splits)

text \<open>
  C5, as amended. For a slice pair whose element types are the identical builtin type,
  \<^verbatim>\<open>doSlice\<close> writes the allocation and one bulk \<^verbatim>\<open>copy(*out, *in)\<close>, and no
  loop. For a map pair \<^verbatim>\<open>doMap\<close> has no bulk copy: after the allocation it always
  opens a loop over the entries, and when keys and values are the identical types and
  directly assignable the loop assigns entry by entry.
\<close>

theorem bulk_copy_for_slices_loop_for_maps:
  "(Elem (h inType) = Some e \<and> Elem (h outType) = Some e \<and> Kind (h e) = Builtin \<longrightarrow>
      doSlice g hp h inType outType =
        Some (emit [Do (''*out = make($.|'' @ rawNamer @ ''$, len(*in))\<newline>'')
                      (AType (Some (h outType))),
                    Do ''copy(*out, *in)\<newline>'' ANil]))
   \<and> (doMap g hp h mapIn mapOut = Some r \<longrightarrow>
        (\<exists>rest. emitted r =
            Do (''*out = make($.|'' @ rawNamer @ ''$, len(*in))\<newline>'') (AType (Some (h mapOut)))
            # (if isDirectlyAssignable hp h (Key (h mapIn)) (Key (h mapOut))
               then Do ''for key, val := range *in {\<newline>'' ANil
               else Do ''for range *in {\<newline>'' ANil)
            # rest))
   \<and> (Key (h mapIn) = Key (h mapOut) \<and> Elem (h mapIn) = Elem (h mapOut)
        \<and> isDirectlyAssignable hp h (Key (h mapIn)) (Key (h mapOut))
        \<and> isDirectlyAssignable hp h (Elem (h mapIn)) (Elem (h mapOut)) \<longrightarrow>
        doMap g hp h mapIn mapOut =
          Some (emit [Do (''*out = make($.|'' @ rawNamer @ ''$, len(*in))\<newline>'')
                        (AType (Some (h mapOut))),
                      Do ''for key, val := range *in {\<newline>'' ANil,
                      Do ''(*out)[key] = '' ANil,
                      Do ''val\<newline>'' ANil,
                      Do ''}\<newline>'' ANil]))"
proof (intro conjI impI)
  assume "Elem (h inType) = Some e \<and> Elem (h outType) = Some e \<and> Kind (h e) = Builtin"
  then show "doSlice g hp h inType outType =
        Some (emit [Do (''*out = make($.|'' @ rawNamer @ ''$, len(*in))\<newline>'')
                      (AType (Some (h outType))),
                    Do ''copy(*out, *in)\<newline>'' ANil])"
    by (simp add: doSlice_def sameBuiltinElem_def Let_def)
next
  assume "doMap g hp h mapIn mapOut = Some r"
  then show "\<exists>rest. emitted r =
            Do (''*out = make($.|'' @ rawNamer @ ''$, len(*in))\<newline>'') (AType (Some (h mapOut)))
            # (if isDirectlyAssignable hp h (Key (h mapIn)) (Key (h mapOut))
               then Do ''for key, val := range *in {\<newline>'' ANil
               else Do ''for range *in {\<newline>'' ANil)
            # rest"
    by (rule doMap_always_loops)
next
  assume a: "Key (h mapIn) = Key (h mapOut) \<and> Elem (h mapIn) = Elem (h mapOut)
        \<and> isDirectlyAssignable hp h (Key (h mapIn)) (Key (h mapOut))
        \<and> isDirectlyAssignable hp h (Elem (h mapIn)) (Elem (h mapOut))"
  have k: "isDirectlyAssignable hp h (Key (h mapIn)) (Key (h mapOut))"
    and e: "isDirectlyAssignable hp h (Elem (h mapIn)) (Elem (h mapOut))"
    and ke: "Key (h mapIn) = Key (h mapOut)" and ee: "Elem (h mapIn) = Elem (h mapOut)"
    using a by blast+
  show "doMap g hp h mapIn mapOut =
          Some (emit [Do (''*out = make($.|'' @ rawNamer @ ''$, len(*in))\<newline>'')
                        (AType (Some (h mapOut))),
                      Do ''for key, val := range *in {\<newline>'' ANil,
                      Do ''(*out)[key] = '' ANil,
                      Do ''val\<newline>'' ANil,
                      Do ''}\<newline>'' ANil])"
    unfolding doMap_def Let_def using k e ke ee by simp
qed

text \<open>
  C5 at work: the slice \<^verbatim>\<open>[]string\<close> is copied in bulk, the map
  \<^verbatim>\<open>map[string]string\<close> entry by entry.
\<close>

theorem bulk_copy_for_slices_loop_for_maps_witness:
  "doSlice exampleGenerator exampleHelpers exampleStore tSliceString tSliceString =
     Some (emit [Do ''*out = make($.|ConversionGenerator_raw$, len(*in))\<newline>''
                   (AType (Some (exampleStore tSliceString))),
                 Do ''copy(*out, *in)\<newline>'' ANil])
   \<and> doMap exampleGenerator exampleHelpers exampleStore tMapStringString tMapStringString =
       Some (emit [Do ''*out = make($.|ConversionGenerator_raw$, len(*in))\<newline>''
                     (AType (Some (exampleStore tMapStringString))),
                   Do ''for key, val := range *in {\<newline>'' ANil,
                   Do ''(*out)[key] = '' ANil,
                   Do ''val\<newline>'' ANil,
                   Do ''}\<newline>'' ANil])"
  using bulk_copy_for_slices_loop_for_maps
          [of exampleStore tSliceString tString tSliceString exampleGenerator exampleHelpers
              tMapStringString tMapStringString]
  by (simp add: exampleStore_def mkType_def tString_def tSliceString_def tMapStringString_def
        exampleHelpers_def rawNamer_def)

text \<open>
  C5 as stated fails for maps: the element type of \<^verbatim>\<open>map[string]string\<close> on both
  sides is the identical builtin \<^verbatim>\<open>string\<close>, and what \<^verbatim>\<open>doMap\<close> writes is a
  loop over the entries, with no bulk copy.
\<close>

theorem bulk_copy_for_maps_counterexample:
  "Elem (exampleStore tMapStringString) = Some tString
   \<and> Kind (exampleStore tString) = Builtin
   \<and> map_option emitted
       (doMap exampleGenerator exampleHelpers exampleStore tMapStringString tMapStringString) =
       Some [Do ''*out = make($.|ConversionGenerator_raw$, len(*in))\<newline>''
               (AType (Some (exampleStore tMapStringString))),
             Do ''for key, val := range *in {\<newline>'' ANil,
             Do ''(*out)[key] = '' ANil,
             Do ''val\<newline>'' ANil,
             Do ''}\<newline>'' ANil]"
  by (simp add: doMap_def Let_def exampleStore_def mkType_def tString_def tMapStringString_def
        exampleHelpers_def rawNamer_def emit_def)

section \<open>C6: maps with unassignable keys\<close>

text \<open>
  C6, as amended. For a map pair whose key types are not directly assignable,
  \<^verbatim>\<open>doMap\<close> writes the allocation and a stub loop that is marked by a
  \<^verbatim>\<open>FIXME\<close> comment in the generated code; it logs nothing, and it returns no error.
\<close>

theorem unassignable_keys_stub_without_log:
  assumes "\<not> isDirectlyAssignable hp h (Key (h inType)) (Key (h outType))"
  shows "doMap g hp h inType outType =
     Some \<lparr>emitted =
              [Do (''*out = make($.|'' @ rawNamer @ ''$, len(*in))\<newline>'')
                 (AType (Some (h outType))),
               Do ''for range *in {\<newline>'' ANil,
               Do (''// FIXME: Converting unassignable keys unsupported $.|'' @ rawNamer
                     @ ''$\<newline>'') (AType (tval h (Key (h inType)))),
               Do ''}\<newline>'' ANil],
           logged = [], errs = []\<rparr>"
  using assms by (simp add: doMap_def Let_def emit_def)

text \<open>
  C6 at work: from \<^verbatim>\<open>map[string]string\<close> to \<^verbatim>\<open>map[int32]string\<close>.
\<close>

theorem unassignable_keys_stub_without_log_witness:
  "\<not> isDirectlyAssignable exampleHelpers exampleStore
        (Key (exampleStore tMapStringString)) (Key (exampleStore tMapInt32String))
   \<and> doMap exampleGenerator exampleHelpers exampleStore tMapStringString tMapInt32String =
     Some \<lparr>emitted =
              [Do (''*out = make($.|'' @ rawNamer @ ''$, len(*in))\<newline>'')
                 (AType (Some (exampleStore tMapInt32String))),
               Do ''for range *in {\<newline>'' ANil,
               Do (''// FIXME: Converting unassignable keys unsupported $.|'' @ rawNamer
                     @ ''$\<newline>'')
                 (AType (tval exampleStore (Key (exampleStore tMapStringString)))),
               Do ''}\<newline>'' ANil],
           logged = [], errs = []\<rparr>"
proof -
  have keys: "\<not> isDirectlyAssignable exampleHelpers exampleStore
        (Key (exampleStore tMapStringString)) (Key (exampleStore tMapInt32String))"
    by (simp add: exampleHelpers_def exampleStore_def mkType_def tMapStringString_def
          tMapInt32String_def tString_def tInt32_def unwrapAliasN_id)
  show ?thesis
    using keys unassignable_keys_stub_without_log [OF keys, of exampleGenerator] by simp
qed

text \<open>
  C6 as stated fails: on the same pair, whose keys \<^verbatim>\<open>string\<close> and \<^verbatim>\<open>int32\<close>
  are not directly assignable, \<^verbatim>\<open>doMap\<close> logs no warning at all.
\<close>

theorem unassignable_keys_warning_counterexample:
  "\<not> isDirectlyAssignable exampleHelpers exampleStore
        (Key (exampleStore tMapStringString)) (Key (exampleStore tMapInt32String))
   \<and> map_option logged
       (doMap exampleGenerator exampleHelpers exampleStore tMapStringString tMapInt32String)
       = Some []"
  by (simp add: doMap_def Let_def exampleHelpers_def exampleStore_def mkType_def
        tMapStringString_def tMapInt32String_def tString_def tInt32_def emit_def
        unwrapAliasN_id)

section \<open>C9: the cross-package policy\<close>

text \<open>
  C9, as amended. \<^verbatim>\<open>convertibleOnlyWithinPackage\<close> permits the internal call for
  a pair exactly when one of the two types belongs to the types package of the generator,
  the side that the function examines (the source type if it belongs to the types package,
  the target type otherwise) has not opted out and is of kind struct, and the name of the
  other type is not a private Go name. The kind of the other type is not examined.
\<close>

theorem convertibleOnlyWithinPackage_iff:
  "\<exists>lg. convertibleOnlyWithinPackage g hp h (Some inType) (Some outType) =
     Some ((Package (TypeName (h inType)) = typesPackage g
              \<or> Package (TypeName (h outType)) = typesPackage g)
           \<and> \<not> optedOut g hp (CommentLines (h (homeSide g h inType outType)))
           \<and> Kind (h (homeSide g h inType outType)) = Struct
           \<and> \<not> IsPrivateGoName hp (Name (TypeName (h (otherSide g h inType outType)))), lg)"
  by (simp add: convertibleOnlyWithinPackage_def homeSide_def otherSide_def Let_def)

text \<open>
  C9 at work: the structs \<^verbatim>\<open>a.Inner\<close> and \<^verbatim>\<open>b.Inner\<close>, seen from package a.
\<close>

theorem convertibleOnlyWithinPackage_iff_witness:
  "convertibleOnlyWithinPackage exampleGenerator exampleHelpers exampleStore
     (Some aInner) (Some bInner) = Some (True, [])"
  using convertibleOnlyWithinPackage_iff
          [of exampleGenerator exampleHelpers exampleStore aInner bInner]
  by (auto simp: convertibleOnlyWithinPackage_def Let_def exampleStore_def aInner_def bInner_def
       mkType_def exampleGenerator_def optedOut_def hasTag_def extractTag_def extractTag_of_def
       exampleOptions_def exampleHelpers_def exampleExtractCommentTags_def)

text \<open>
  C9 as stated fails: the pair of the struct \<^verbatim>\<open>a.Inner\<close> and the interface
  \<^verbatim>\<open>b.Iface\<close> is not a pair of structs, and the internal call is permitted for it.
\<close>

theorem convertibleOnlyWithinPackage_pair_counterexample:
  "Kind (exampleStore aInner) = Struct \<and> Kind (exampleStore bIface) = Interface
   \<and> convertibleOnlyWithinPackage exampleGenerator exampleHelpers exampleStore
        (Some aInner) (Some bIface) = Some (True, [])"
  by (simp add: convertibleOnlyWithinPackage_def Let_def exampleStore_def aInner_def bIface_def
       mkType_def exampleGenerator_def optedOut_def hasTag_def extractTag_def extractTag_of_def
       exampleOptions_def exampleHelpers_def exampleExtractCommentTags_def)

section \<open>The worked examples, evaluated\<close>

lemmas pointer_defs =
  tString_def tInt32_def tMapStringString_def tMapInt32String_def tSliceString_def
  aSame_def bSame_def aPtrSame_def bPtrSame_def aInner_def bInner_def aOuter_def bOuter_def
  aQuiet_def bQuiet_def bIface_def fnLabels_def fnInner_def aLone_def bLone_def
  aHolder_def bHolder_def fnString_def aLabels_def bLabels_def aTagged_def bTagged_def
  aPair_def bPair_def fnPair_def

lemma example_fields:
  "Options exampleGenerator = exampleOptions"
  "typesPackage exampleGenerator = ''a''"
  "peerPackages exampleGenerator = [''c'', ''b'']"
  "peerTypes exampleGenerator = Map.empty"
  "Options safeGenerator = exampleOptions\<lparr>NoUnsafeConversions := True\<rparr>"
  "typesPackage safeGenerator = ''a''"
  "unsafeConversionArbitrator safeGenerator = unsafeConversionArbitrator exampleGenerator"
  "Options strictGenerator = exampleOptions\<lparr>MissingFieldsHandler := Some ErrorMissingFieldHandler\<rparr>"
  "typesPackage strictGenerator = ''a''"
  "unsafeConversionArbitrator strictGenerator = unsafeConversionArbitrator exampleGenerator"
  by (simp_all add: exampleGenerator_def safeGenerator_def strictGenerator_def)

lemma example_options:
  "ManualConversionsTracker exampleOptions = exampleTracker"
  "NoUnsafeConversions exampleOptions = False"
  "TagName exampleOptions = ''conversion-gen''"
  "FunctionTagName exampleOptions = ''conversion-gen''"
  "MissingFieldsHandler exampleOptions = None"
  "InconvertibleFieldsHandler exampleOptions = None"
  "UnsupportedTypesHandler exampleOptions = None"
  "ExternalConversionsHandler exampleOptions = None"
  "additionalConversionArguments exampleTracker = []"
  by (simp_all add: exampleOptions_def exampleTracker_def)

lemma example_helpers:
  "Kind (h p) \<noteq> Alias \<Longrightarrow> unwrapAlias exampleHelpers h p = p"
  "Kind (h x) \<noteq> Alias \<Longrightarrow> Kind (h y) \<noteq> Alias \<Longrightarrow>
     isDirectlyAssignable exampleHelpers h (Some x) (Some y) = (x = y)"
  "findMember exampleHelpers h t n = find (\<lambda>m. MemberName m = n) (Members (h t))"
  "ExtractCommentTags exampleHelpers = exampleExtractCommentTags"
  "Kind (h x) \<noteq> Alias \<Longrightarrow> Kind (h y) \<noteq> Alias \<Longrightarrow>
     isFastConversion exampleHelpers h x y =
       (Kind (h x) = Builtin \<or> (Kind (h x) \<in> {Map, Slice, Pointer, Struct} \<and> x = y))"
  "functionHasTag_of exampleHelpers h f tagName v =
     (v \<in> set (exampleExtractCommentTags ''+'' (CommentLines (h f)) tagName))"
  "argsFromType exampleHelpers h a b =
     [(''inType'', TypeVal (tval h a)), (''outType'', TypeVal (tval h b))]"
  "conversionFunctionNameTemplate exampleHelpers namer =
     ''Convert_$.inType|'' @ namer @ ''$_To_$.outType|'' @ namer @ ''$''"
  by (simp_all add: exampleHelpers_def unwrapAliasN_id)

lemma example_members:
  "Kind (h (MemberType m)) \<noteq> Alias \<Longrightarrow> Kind (h (MemberType m')) \<noteq> Alias \<Longrightarrow>
     memberStore exampleHelpers h m m' = h"
  "Kind (h (MemberType m)) \<noteq> Alias \<Longrightarrow> inMemberTypeOf exampleHelpers h m = MemberType m"
  "Kind (h (MemberType m)) \<noteq> Alias \<Longrightarrow> Kind (h (MemberType m')) \<noteq> Alias \<Longrightarrow>
     outMemberTypeOf exampleHelpers h m m' = MemberType m'"
  by (simp_all add: memberStore_def inMemberTypeOf_def outMemberTypeOf_def aliasCopy_def
        example_helpers)

lemma example_tags:
  "exampleExtractCommentTags ''+'' [] t = []"
  "exampleExtractCommentTags ''+'' [''+conversion-gen=false''] ''conversion-gen'' = [''false'']"
  "exampleExtractCommentTags ''+'' [''+conversion-gen=peerName:''] ''conversion-gen'' = [''peerName:'']"
  "exampleExtractCommentTags ''+'' [''+conversion-gen=copy-only''] ''conversion-gen'' = [''copy-only'']"
  "exampleExtractCommentTags ''+'' [''+conversion-gen=drop''] ''conversion-gen'' = [''drop'']"
  by (simp_all add: exampleExtractCommentTags_def trimSpaces_def)

lemma example_kinds:
  "Kind (exampleStore aPtrSame) = Pointer" "Kind (exampleStore bPtrSame) = Pointer"
  "Kind (exampleStore aSame) = Struct" "Kind (exampleStore bSame) = Struct"
  "Kind (exampleStore aInner) = Struct" "Kind (exampleStore bInner) = Struct"
  "Kind (exampleStore tString) = Builtin" "Kind (exampleStore tInt32) = Builtin"
  "Kind (exampleStore aOuter) = Struct" "Kind (exampleStore bOuter) = Struct"
  "Kind (exampleStore aQuiet) = Struct" "Kind (exampleStore bQuiet) = Struct"
  "Kind (exampleStore aHolder) = Struct" "Kind (exampleStore bHolder) = Struct"
  "Kind (exampleStore aTagged) = Struct" "Kind (exampleStore bTagged) = Struct"
  "Kind (exampleStore aLabels) = Alias" "Kind (exampleStore bLabels) = Alias"
  "Kind (exampleStore tMapStringString) = Map"
  "Kind (exampleStore aPair) = Struct" "Kind (exampleStore bPair) = Struct"
  by (simp_all add: exampleStore_def pointer_defs mkType_def)

lemma example_comments:
  "CommentLines (exampleStore fnLabels) = [''+conversion-gen=drop'']"
  "CommentLines (exampleStore fnInner) = [''+conversion-gen=copy-only'']"
  "CommentLines (exampleStore fnString) = [''+conversion-gen=copy-only'']"
  "CommentLines (exampleStore fnPair) = [''+conversion-gen=copy-only'']"
  "CommentLines (exampleStore aPair) = []" "CommentLines (exampleStore bPair) = []"
  "CommentLines (exampleStore aLone) = [''+conversion-gen=peerName:'']"
  "CommentLines (exampleStore aSame) = []" "CommentLines (exampleStore bSame) = []"
  "CommentLines (exampleStore aInner) = []" "CommentLines (exampleStore bInner) = []"
  "CommentLines (exampleStore aOuter) = []" "CommentLines (exampleStore bOuter) = []"
  "CommentLines (exampleStore aQuiet) = []" "CommentLines (exampleStore bQuiet) = []"
  "CommentLines (exampleStore aHolder) = []" "CommentLines (exampleStore bHolder) = []"
  by (simp_all add: exampleStore_def pointer_defs mkType_def)

lemma example_membersOf:
  "Members (exampleStore aOuter) = [mFoo, mInner, mGone, mSkipped]"
  "Members (exampleStore bOuter) = [mkMember ''Foo'' [] bPtrSame, mkMember ''Inner'' [] bInner]"
  "Members (exampleStore aQuiet) = [mSkipped]"
  "Members (exampleStore bQuiet) = []"
  "Members (exampleStore aHolder) = [mSame]"
  "Members (exampleStore bHolder) = [mkMember ''Same'' [] bSame]"
  "Members (exampleStore aSame) = [mX]"
  "Members (exampleStore bSame) = [mkMember ''X'' [] tString]"
  "Members (exampleStore aTagged) = [mLabels, mPair]"
  "Members (exampleStore bTagged) = [mkMember ''Labels'' [] bLabels, mkMember ''Pair'' [] bPair]"
  "Members (exampleStore aPair) = [mX]"
  "Members (exampleStore bPair) = [mkMember ''X'' [] tString]"
  by (simp_all add: exampleStore_def pointer_defs mkType_def)

lemma example_names:
  "TypeName (exampleStore aOuter) = \<lparr>Package = ''a'', Name = ''Outer''\<rparr>"
  "TypeName (exampleStore bOuter) = \<lparr>Package = ''b'', Name = ''Outer''\<rparr>"
  "TypeName (exampleStore aQuiet) = \<lparr>Package = ''a'', Name = ''Quiet''\<rparr>"
  "TypeName (exampleStore bQuiet) = \<lparr>Package = ''b'', Name = ''Quiet''\<rparr>"
  "TypeName (exampleStore aLone) = \<lparr>Package = ''a'', Name = ''Lone''\<rparr>"
  "TypeName (exampleStore aSame) = \<lparr>Package = ''a'', Name = ''Same''\<rparr>"
  "TypeName (exampleStore bSame) = \<lparr>Package = ''b'', Name = ''Same''\<rparr>"
  "TypeName (exampleStore aInner) = \<lparr>Package = ''a'', Name = ''Inner''\<rparr>"
  "TypeName (exampleStore bInner) = \<lparr>Package = ''b'', Name = ''Inner''\<rparr>"
  "TypeName (exampleStore aHolder) = \<lparr>Package = ''a'', Name = ''Holder''\<rparr>"
  "TypeName (exampleStore bHolder) = \<lparr>Package = ''b'', Name = ''Holder''\<rparr>"
  "TypeName (exampleStore fnString) = \<lparr>Package = ''b'', Name = ''Convert_string_To_string''\<rparr>"
  "TypeName (exampleStore aPair) = \<lparr>Package = ''a'', Name = ''Pair''\<rparr>"
  "TypeName (exampleStore bPair) = \<lparr>Package = ''b'', Name = ''Pair''\<rparr>"
  by (simp_all add: exampleStore_def pointer_defs mkType_def)

lemma example_member_fields:
  "MemberName mFoo = ''Foo''" "MemberCommentLines mFoo = []" "MemberType mFoo = aPtrSame"
  "MemberName mInner = ''Inner''" "MemberCommentLines mInner = []" "MemberType mInner = aInner"
  "MemberName mGone = ''Gone''" "MemberCommentLines mGone = []" "MemberType mGone = tString"
  "MemberName mSame = ''Same''" "MemberCommentLines mSame = []" "MemberType mSame = aSame"
  "MemberName mX = ''X''" "MemberCommentLines mX = []" "MemberType mX = tString"
  "MemberName mLabels = ''Labels''" "MemberCommentLines mLabels = []"
  "MemberType mLabels = aLabels"
  "MemberName mPair = ''Pair''" "MemberCommentLines mPair = []" "MemberType mPair = aPair"
  "MemberName mSkipped = ''Skipped''"
  "MemberCommentLines mSkipped = [''+conversion-gen=false'']" "MemberType mSkipped = tString"
  "MemberName (mkMember n c t) = n" "MemberCommentLines (mkMember n c t) = c"
  "MemberType (mkMember n c t) = t"
  by (simp_all add: mFoo_def mInner_def mGone_def mSame_def mX_def mSkipped_def
        mLabels_def mPair_def mkMember_def)

lemma example_preexists:
  "preexists exampleGenerator (Some aLabels) (Some bLabels) = Some fnLabels"
  "preexists exampleGenerator (Some aPair) (Some bPair) = Some fnPair"
  "preexists exampleGenerator (Some aPtrSame) (Some bPtrSame) = None"
  "preexists exampleGenerator (Some aInner) (Some bInner) = Some fnInner"
  "preexists exampleGenerator (Some tString) (Some tString) = Some fnString"
  "preexists exampleGenerator (Some aSame) (Some bSame) = None"
  "preexists exampleGenerator (Some aOuter) (Some bOuter) = None"
  "preexists safeGenerator (Some aLabels) (Some bLabels) = Some fnLabels"
  "preexists safeGenerator (Some aPtrSame) (Some bPtrSame) = None"
  "preexists strictGenerator (Some aQuiet) (Some bQuiet) = None"
  "preexists strictGenerator (Some aOuter) (Some bOuter) = None"
  by (simp_all add: preexists_def example_fields example_options exampleTracker_def pointer_defs)

lemma example_function_tags:
  "functionHasTag exampleGenerator exampleHelpers exampleStore fnLabels ''drop''"
  "\<not> functionHasTag exampleGenerator exampleHelpers exampleStore fnLabels ''copy-only''"
  "functionHasTag safeGenerator exampleHelpers exampleStore fnLabels ''drop''"
  "functionHasTag exampleGenerator exampleHelpers exampleStore fnInner ''copy-only''"
  "\<not> functionHasTag exampleGenerator exampleHelpers exampleStore fnInner ''drop''"
  "functionHasTag exampleGenerator exampleHelpers exampleStore fnString ''copy-only''"
  "\<not> functionHasTag exampleGenerator exampleHelpers exampleStore fnString ''drop''"
  "functionHasTag exampleGenerator exampleHelpers exampleStore fnPair ''copy-only''"
  "\<not> functionHasTag exampleGenerator exampleHelpers exampleStore fnPair ''drop''"
  by (simp_all add: functionHasTag_def example_fields example_options example_helpers
        example_comments example_tags)

lemma example_optedOut:
  "\<not> optedOut g hp []" if "ExtractCommentTags hp = exampleExtractCommentTags"
  using that by (simp add: optedOut_def hasTag_def extractTag_def extractTag_of_def example_tags)

lemma example_arbiter:
  "unsafeConversionArbitrator exampleGenerator exampleStore aPtrSame bPtrSame"
  "unsafeConversionArbitrator exampleGenerator exampleStore aSame bSame"
  "unsafeConversionArbitrator exampleGenerator exampleStore tString tString"
  "\<not> unsafeConversionArbitrator exampleGenerator exampleStore aInner bInner"
  "unsafeConversionArbitrator exampleGenerator exampleStore aPair bPair"
  by code_simp+

lemma example_distinct:
  "aInner \<noteq> bInner" "aSame \<noteq> bSame" "aPtrSame \<noteq> bPtrSame" "aOuter \<noteq> bOuter"
  "aQuiet \<noteq> bQuiet" "aHolder \<noteq> bHolder" "tString \<noteq> tInt32" "aPair \<noteq> bPair"
  by (simp_all add: pointer_defs)

lemmas example_eval =
  example_fields example_options example_helpers example_members example_tags example_kinds
  example_comments example_membersOf example_names example_member_fields example_preexists
  example_function_tags example_arbiter

lemma ex_find:
  "findMember exampleHelpers exampleStore bOuter ''Foo'' = Some (mkMember ''Foo'' [] bPtrSame)"
  "findMember exampleHelpers exampleStore bOuter ''Inner'' = Some (mkMember ''Inner'' [] bInner)"
  "findMember exampleHelpers exampleStore bOuter ''Gone'' = None"
  "findMember exampleHelpers exampleStore bOuter ''Skipped'' = None"
  "findMember exampleHelpers exampleStore bQuiet ''Skipped'' = None"
  "findMember exampleHelpers exampleStore bHolder ''Same'' = Some (mkMember ''Same'' [] bSame)"
  "findMember exampleHelpers exampleStore bSame ''X'' = Some (mkMember ''X'' [] tString)"
  by (simp_all add: example_eval)

lemma ex_notOptedOut:
  "\<not> optedOut exampleGenerator exampleHelpers []"
  "\<not> optedOut safeGenerator exampleHelpers []"
  "\<not> optedOut strictGenerator exampleHelpers []"
  by (simp_all add: example_optedOut example_helpers)

lemma ex_args:
  "memberArgs exampleGenerator exampleHelpers exampleStore mFoo (mkMember ''Foo'' [] bPtrSame) =
     [(''inType'', TypeVal (Some (exampleStore aPtrSame))),
      (''outType'', TypeVal (Some (exampleStore bPtrSame))),
      (''name'', StrVal ''Foo''),
      (''Pointer'', TypeVal (Some unsafePointerRef))]"
  "memberArgs exampleGenerator exampleHelpers exampleStore mSame (mkMember ''Same'' [] bSame) =
     [(''inType'', TypeVal (Some (exampleStore aSame))),
      (''outType'', TypeVal (Some (exampleStore bSame))),
      (''name'', StrVal ''Same''),
      (''Pointer'', TypeVal (Some unsafePointerRef))]"
  "memberArgs exampleGenerator exampleHelpers exampleStore mInner (mkMember ''Inner'' [] bInner) =
     [(''inType'', TypeVal (Some (exampleStore aInner))),
      (''outType'', TypeVal (Some (exampleStore bInner))),
      (''name'', StrVal ''Inner'')]"
  "memberArgs safeGenerator exampleHelpers exampleStore mFoo (mkMember ''Foo'' [] bPtrSame) =
     [(''inType'', TypeVal (Some (exampleStore aPtrSame))),
      (''outType'', TypeVal (Some (exampleStore bPtrSame))),
      (''name'', StrVal ''Foo'')]"
  "memberArgs exampleGenerator exampleHelpers exampleStore mX (mkMember ''X'' [] tString) =
     [(''inType'', TypeVal (Some (exampleStore tString))),
      (''outType'', TypeVal (Some (exampleStore tString))),
      (''name'', StrVal ''X''),
      (''Pointer'', TypeVal (Some unsafePointerRef))]"
  by (simp_all add: memberArgs_def Let_def useUnsafeConversion_def example_eval tval_def)

text \<open>
  The member \<^verbatim>\<open>Labels\<close> has an alias on both sides: it is converted in the store that
  has the two copies of \<^verbatim>\<open>map[string]string\<close> under the names of the aliases.
\<close>

lemma unwrapAliasN_step:
  "Kind (h p) = Alias \<Longrightarrow> Underlying (h p) = Some u \<Longrightarrow> Kind (h u) \<noteq> Alias
     \<Longrightarrow> unwrapAliasN 8 h p = u"
  by (simp add: eval_nat_numeral unwrapAliasN_id)

lemma ex_unwrap_labels:
  "unwrapAlias exampleHelpers exampleStore aLabels = tMapStringString"
  "unwrapAlias exampleHelpers (exampleStore(CopiedIn := t)) bLabels = tMapStringString"
  by (simp_all add: exampleHelpers_def unwrapAliasN_step exampleStore_def aLabels_def
        bLabels_def tMapStringString_def mkType_def)

lemma ex_labels:
  "inMemberTypeOf exampleHelpers exampleStore mLabels = CopiedIn"
  "outMemberTypeOf exampleHelpers exampleStore mLabels (mkMember ''Labels'' [] bLabels)
     = CopiedOut"
  "memberStore exampleHelpers exampleStore mLabels (mkMember ''Labels'' [] bLabels) =
     exampleStore
       (CopiedIn := (exampleStore tMapStringString)
                      \<lparr>TypeName := \<lparr>Package = ''a'', Name = ''Labels''\<rparr>\<rparr>,
        CopiedOut := (exampleStore tMapStringString)
                       \<lparr>TypeName := \<lparr>Package = ''b'', Name = ''Labels''\<rparr>\<rparr>)"
proof -
  have ne: "tMapStringString \<noteq> aLabels" "tMapStringString \<noteq> bLabels"
    by (simp_all add: pointer_defs)
  have names: "TypeName (exampleStore aLabels) = \<lparr>Package = ''a'', Name = ''Labels''\<rparr>"
    "TypeName (exampleStore bLabels) = \<lparr>Package = ''b'', Name = ''Labels''\<rparr>"
    by (simp_all add: exampleStore_def pointer_defs mkType_def)
  have upd: "(exampleStore(CopiedIn := t)) bLabels = exampleStore bLabels"
    "(exampleStore(CopiedIn := t)) tMapStringString = exampleStore tMapStringString" for t
    by (simp_all add: pointer_defs)
  show "inMemberTypeOf exampleHelpers exampleStore mLabels = CopiedIn"
    by (simp add: inMemberTypeOf_def aliasCopy_def Let_def example_member_fields
          ex_unwrap_labels ne)
  show "outMemberTypeOf exampleHelpers exampleStore mLabels (mkMember ''Labels'' [] bLabels)
          = CopiedOut"
    by (simp add: outMemberTypeOf_def aliasCopy_def Let_def example_member_fields
          ex_unwrap_labels ne)
  show "memberStore exampleHelpers exampleStore mLabels (mkMember ''Labels'' [] bLabels) =
     exampleStore
       (CopiedIn := (exampleStore tMapStringString)
                      \<lparr>TypeName := \<lparr>Package = ''a'', Name = ''Labels''\<rparr>\<rparr>,
        CopiedOut := (exampleStore tMapStringString)
                       \<lparr>TypeName := \<lparr>Package = ''b'', Name = ''Labels''\<rparr>\<rparr>)"
    by (simp add: memberStore_def aliasCopy_def Let_def example_member_fields
          ex_unwrap_labels ne names upd del: fun_upd_apply)
qed

lemma ex_labels_arbiter:
  "unsafeConversionArbitrator exampleGenerator
     (memberStore exampleHelpers exampleStore mLabels (mkMember ''Labels'' [] bLabels))
     (inMemberTypeOf exampleHelpers exampleStore mLabels)
     (outMemberTypeOf exampleHelpers exampleStore mLabels (mkMember ''Labels'' [] bLabels))"
  by code_simp


lemma ex_labels_kind:
  "Kind (memberStore exampleHelpers exampleStore mLabels (mkMember ''Labels'' [] bLabels)
           (inMemberTypeOf exampleHelpers exampleStore mLabels)) = Map"
  by (simp add: ex_labels example_kinds)

lemma ex_labels_find:
  "findMember exampleHelpers exampleStore bTagged ''Labels''
     = Some (mkMember ''Labels'' [] bLabels)"
  by (simp add: example_eval)

lemma ex_labels_args:
  "memberArgs exampleGenerator exampleHelpers exampleStore mLabels
     (mkMember ''Labels'' [] bLabels) =
     [(''inType'', TypeVal (Some ((exampleStore tMapStringString)
                                    \<lparr>TypeName := \<lparr>Package = ''a'', Name = ''Labels''\<rparr>\<rparr>))),
      (''outType'', TypeVal (Some ((exampleStore tMapStringString)
                                     \<lparr>TypeName := \<lparr>Package = ''b'', Name = ''Labels''\<rparr>\<rparr>))),
      (''name'', StrVal ''Labels''),
      (''Pointer'', TypeVal (Some unsafePointerRef))]"
  using ex_labels_arbiter
  by (simp add: memberArgs_def Let_def useUnsafeConversion_def example_fields example_options
        example_helpers example_member_fields tval_def ex_labels)

section \<open>C8: the peer resolver\<close>

lemma GetPeerTypeFor_loop_first_match:
  "GetPeerTypeFor_loop U pkgs n = Some t \<longleftrightarrow>
     (\<exists>i < length pkgs. (\<exists>p. U (pkgs ! i) = Some p \<and> Types p n = Some t)
         \<and> (\<forall>j < i. \<forall>q. U (pkgs ! j) = Some q \<longrightarrow> Types q n = None))"
proof (induction pkgs)
  case Nil
  then show ?case by simp
next
  case (Cons a pkgs)
  show ?case
  proof (cases "\<exists>p. U a = Some p \<and> Types p n \<noteq> None")
    case True
    then obtain p t' where p: "U a = Some p" "Types p n = Some t'" by auto
    have "GetPeerTypeFor_loop U (a # pkgs) n = Some t'" using p by (simp add: Has_def)
    moreover have "(\<exists>i < length (a # pkgs). (\<exists>p. U ((a # pkgs) ! i) = Some p \<and> Types p n = Some t)
         \<and> (\<forall>j < i. \<forall>q. U ((a # pkgs) ! j) = Some q \<longrightarrow> Types q n = None)) \<longleftrightarrow> t = t'"
    proof
      assume "\<exists>i < length (a # pkgs). (\<exists>p. U ((a # pkgs) ! i) = Some p \<and> Types p n = Some t)
         \<and> (\<forall>j < i. \<forall>q. U ((a # pkgs) ! j) = Some q \<longrightarrow> Types q n = None)"
      then obtain i where i: "i < length (a # pkgs)"
         "\<exists>p. U ((a # pkgs) ! i) = Some p \<and> Types p n = Some t"
         "\<forall>j < i. \<forall>q. U ((a # pkgs) ! j) = Some q \<longrightarrow> Types q n = None" by blast
      have "i = 0"
      proof (rule ccontr)
        assume "i \<noteq> 0"
        then have "0 < i" by simp
        with i(3) p show False by force
      qed
      with i(2) p show "t = t'" by simp
    next
      assume "t = t'"
      with p show "\<exists>i < length (a # pkgs). (\<exists>p. U ((a # pkgs) ! i) = Some p \<and> Types p n = Some t)
         \<and> (\<forall>j < i. \<forall>q. U ((a # pkgs) ! j) = Some q \<longrightarrow> Types q n = None)"
        by (intro exI[of _ 0]) simp
    qed
    ultimately show ?thesis by auto
  next
    case False
    then have skip: "GetPeerTypeFor_loop U (a # pkgs) n = GetPeerTypeFor_loop U pkgs n"
      by (auto simp: Has_def split: option.splits)
    have none: "\<forall>q. U a = Some q \<longrightarrow> Types q n = None" using False by auto
    have "(\<exists>i < length (a # pkgs). (\<exists>p. U ((a # pkgs) ! i) = Some p \<and> Types p n = Some t)
         \<and> (\<forall>j < i. \<forall>q. U ((a # pkgs) ! j) = Some q \<longrightarrow> Types q n = None))
      \<longleftrightarrow> (\<exists>i < length pkgs. (\<exists>p. U (pkgs ! i) = Some p \<and> Types p n = Some t)
         \<and> (\<forall>j < i. \<forall>q. U (pkgs ! j) = Some q \<longrightarrow> Types q n = None))" (is "?L \<longleftrightarrow> ?R")
    proof
      assume ?L
      then obtain i where i: "i < length (a # pkgs)"
         "\<exists>p. U ((a # pkgs) ! i) = Some p \<and> Types p n = Some t"
         "\<forall>j < i. \<forall>q. U ((a # pkgs) ! j) = Some q \<longrightarrow> Types q n = None" by blast
      have "i \<noteq> 0" using i(2) none by (cases i) auto
      then obtain k where k: "i = Suc k" by (cases i) auto
      have "\<forall>j < k. \<forall>q. U (pkgs ! j) = Some q \<longrightarrow> Types q n = None"
      proof (intro allI impI)
        fix j q assume "j < k" "U (pkgs ! j) = Some q"
        then show "Types q n = None" using i(3)[rule_format, of "Suc j" q] k by simp
      qed
      with i k show ?R by (intro exI[of _ k]) simp
    next
      assume ?R
      then obtain i where i: "i < length pkgs"
         "\<exists>p. U (pkgs ! i) = Some p \<and> Types p n = Some t"
         "\<forall>j < i. \<forall>q. U (pkgs ! j) = Some q \<longrightarrow> Types q n = None" by blast
      have "\<forall>j < Suc i. \<forall>q. U ((a # pkgs) ! j) = Some q \<longrightarrow> Types q n = None"
      proof (intro allI impI)
        fix j q assume "j < Suc i" "U ((a # pkgs) ! j) = Some q"
        then show "Types q n = None" using i(3) none by (cases j) auto
      qed
      with i show ?L by (intro exI[of _ "Suc i"]) simp
    qed
    with skip Cons.IH show ?thesis by simp
  qed
qed

lemma peerNameFor_guard:
  "peerNameFor g hp h t =
     (if fst (hasTagOption g hp (CommentLines (h t)) ''peerName'')
         \<and> snd (hasTagOption g hp (CommentLines (h t)) ''peerName'') \<noteq> []
      then snd (hasTagOption g hp (CommentLines (h t)) ''peerName'')
      else Name (TypeName (h t)))"
  by (cases "hasTagOption g hp (CommentLines (h t)) ''peerName''")
     (simp add: peerNameFor_def customPeerName_def)

text \<open>
  C8, as amended. \<^verbatim>\<open>GetPeerTypeFor\<close> looks up the cache \<^verbatim>\<open>g.peerTypes\<close> under the
  simple name of the type. On a miss it searches the peer packages in their declared order,
  skips the packages that the universe does not have, and takes the type of the effective
  name in the first package that has one, \<^verbatim>\<open>nil\<close> if none has; it stores the result,
  \<^verbatim>\<open>nil\<close> included, under the simple name. On a hit it returns the cached result and
  changes nothing. After a resolution, the resolution of any type of the same simple name
  returns the same result whatever the universe holds, and changes nothing. The effective
  name is the name of a \<^verbatim>\<open>peerName\<close> option that is present \<^emph>\<open>and not empty\<close>, and the
  simple name otherwise.
\<close>

theorem GetPeerTypeFor_first_match_cached:
  "\<exists>r g' lg.
     GetPeerTypeFor g hp U h t = (r, g', lg)
     \<and> (peerTypes g (Name (TypeName (h t))) = None \<longrightarrow>
          r = GetPeerTypeFor_loop U (peerPackages g) (peerNameFor g hp h t)
          \<and> (\<forall>ty. r = Some ty \<longleftrightarrow>
                (\<exists>i < length (peerPackages g).
                    (\<exists>p. U (peerPackages g ! i) = Some p
                         \<and> Types p (peerNameFor g hp h t) = Some ty)
                    \<and> (\<forall>j < i. \<forall>q. U (peerPackages g ! j) = Some q
                           \<longrightarrow> Types q (peerNameFor g hp h t) = None)))
          \<and> g' = g\<lparr>peerTypes := (peerTypes g)(Name (TypeName (h t)) \<mapsto> r)\<rparr>)
     \<and> (\<forall>cached. peerTypes g (Name (TypeName (h t))) = Some cached \<longrightarrow>
          r = cached \<and> g' = g \<and> lg = [])
     \<and> (\<forall>U' t'. Name (TypeName (h t')) = Name (TypeName (h t)) \<longrightarrow>
          GetPeerTypeFor g' hp U' h t' = (r, g', []))
     \<and> peerNameFor g hp h t =
         (if fst (hasTagOption g hp (CommentLines (h t)) ''peerName'')
             \<and> snd (hasTagOption g hp (CommentLines (h t)) ''peerName'') \<noteq> []
          then snd (hasTagOption g hp (CommentLines (h t)) ''peerName'')
          else Name (TypeName (h t)))"
proof (cases "peerTypes g (Name (TypeName (h t)))")
  case None
  let ?r = "GetPeerTypeFor_loop U (peerPackages g) (peerNameFor g hp h t)"
  let ?g = "g\<lparr>peerTypes := (peerTypes g)(Name (TypeName (h t)) \<mapsto> ?r)\<rparr>"
  obtain lg where run: "GetPeerTypeFor g hp U h t = (?r, ?g, lg)"
    using None by (simp add: GetPeerTypeFor_def Let_def)
  have again: "\<forall>U' t'. Name (TypeName (h t')) = Name (TypeName (h t)) \<longrightarrow>
          GetPeerTypeFor ?g hp U' h t' = (?r, ?g, [])"
    by (simp add: GetPeerTypeFor_def)
  show ?thesis
    using run None again peerNameFor_guard [of g hp h t]
      GetPeerTypeFor_loop_first_match [of U "peerPackages g" "peerNameFor g hp h t"]
    by (intro exI[of _ ?r] exI[of _ ?g] exI[of _ lg]) simp
next
  case (Some cached)
  have run: "GetPeerTypeFor g hp U h t = (cached, g, [])"
    using Some by (simp add: GetPeerTypeFor_def)
  have again: "\<forall>U' t'. Name (TypeName (h t')) = Name (TypeName (h t)) \<longrightarrow>
          GetPeerTypeFor g hp U' h t' = (cached, g, [])"
    using Some by (simp add: GetPeerTypeFor_def)
  show ?thesis
    using run Some again peerNameFor_guard [of g hp h t]
    by (intro exI[of _ cached] exI[of _ g] exI[of _ "[]"]) simp
qed

lemma example_peerName:
  "peerNameFor exampleGenerator exampleHelpers exampleStore aOuter = ''Outer''"
  by (simp add: peerNameFor_def customPeerName_def hasTagOption_def extractTag_def
        extractTag_of_def example_eval)

lemma example_loop:
  "GetPeerTypeFor_loop exampleUniverse [''c'', ''b''] ''Outer'' = Some bOuter"
  by (simp add: exampleUniverse_def Has_def)

text \<open>
  C8 at work: the peer of \<^verbatim>\<open>a.Outer\<close> is found in the second peer package; a second
  resolution returns it from the cache, here with a universe that has no package at all.
\<close>

theorem GetPeerTypeFor_first_match_cached_witness:
  "peerTypes exampleGenerator (Name (TypeName (exampleStore aOuter))) = None
   \<and> fst (GetPeerTypeFor exampleGenerator exampleHelpers exampleUniverse exampleStore aOuter)
       = Some bOuter
   \<and> GetPeerTypeFor
        (fst (snd (GetPeerTypeFor exampleGenerator exampleHelpers exampleUniverse exampleStore
                     aOuter)))
        exampleHelpers (\<lambda>path. None) exampleStore aOuter
       = (Some bOuter,
          fst (snd (GetPeerTypeFor exampleGenerator exampleHelpers exampleUniverse exampleStore
                      aOuter)),
          [])"
proof -
  have miss: "peerTypes exampleGenerator (Name (TypeName (exampleStore aOuter))) = None"
    by (simp add: example_fields)
  show ?thesis
    using GetPeerTypeFor_first_match_cached
            [of exampleGenerator exampleHelpers exampleUniverse exampleStore aOuter]
          miss example_fields(3) example_peerName example_loop
    by (elim exE conjE) simp
qed

text \<open>
  C8 as stated fails: the type \<^verbatim>\<open>a.Lone\<close> carries a \<^verbatim>\<open>peerName\<close> annotation, whose
  name is empty. Were the lookup name overridden by the annotation, the search would be for
  the empty name, which no peer package has; the resolver searches for \<^verbatim>\<open>Lone\<close> and
  finds \<^verbatim>\<open>b.Lone\<close>.
\<close>

theorem GetPeerTypeFor_empty_peerName_counterexample:
  "hasTagOption exampleGenerator exampleHelpers (CommentLines (exampleStore aLone)) ''peerName''
     = (True, [])
   \<and> GetPeerTypeFor_loop exampleUniverse (peerPackages exampleGenerator) [] = None
   \<and> fst (GetPeerTypeFor exampleGenerator exampleHelpers exampleUniverse exampleStore aLone)
       = Some bLone"
  by (simp add: GetPeerTypeFor_def Let_def peerNameFor_def customPeerName_def hasTagOption_def
        extractTag_def extractTag_of_def example_eval exampleUniverse_def Has_def)

section \<open>C10: the unsafe fast path and the kinds\<close>

text \<open>
  What the branches of the loop of \<^verbatim>\<open>doStruct\<close> write, one by one.
\<close>

lemma internalOrExternal_written:
  "internalOrExternal g hp h2 inType outType imt omt inMember outMember args =
     (case convertibleOnlyWithinPackage g hp h2 (Some imt) (Some omt) of
        None \<Rightarrow> None
      | Some (permitted, lg) \<Rightarrow>
          if permitted then
            Some \<lparr>emitted =
                    [Do (''if err := '' @ conversionFunctionNameTemplate hp publicImportTrackingNamer
                           @ ''(&in.$.name$, &out.$.name$'' @ extraArgumentsString g
                           @ ''); err != nil {\<newline>'') (AArgs args),
                     Do ''return err\<newline>}\<newline>'' ANil],
                  logged = lg, errs = []\<rparr>
          else
            (case ExternalConversionsHandler (Options g) of
               None \<Rightarrow>
                 Some \<lparr>emitted = [],
                       logged = lg @ [Warningf ''%s.%s requires manual conversion to external type %s.%s''
                                   [LName (TypeName (h2 inType)), LStr (MemberName inMember),
                                    LName (TypeName (h2 outType)), LStr (MemberName outMember)]],
                       errs = []\<rparr>
             | Some handler \<Rightarrow>
                 (case handler h2 (NewNamedVariable (''&in.'' @ MemberName inMember) (Some imt))
                         (NewNamedVariable (''&out.'' @ MemberName outMember) (Some omt)) of
                    (handlerWritten, handled, e) \<Rightarrow>
                      Some \<lparr>emitted = handlerWritten, logged = lg, errs = errlist e\<rparr>)))"
  by (simp add: internalOrExternal_def callExternalConversionsHandlerForStructField_def
        app_res_def klog_def emit_def split: option.splits prod.splits bool.splits)

lemma inconvertibleFields_written:
  "Some (inconvertibleFields g hp h2 inType outType imt omt inMember outMember) =
     (case InconvertibleFieldsHandler (Options g) of
        None \<Rightarrow>
          Some \<lparr>emitted = [],
                logged =
                  [Warningf
                     ''%s.%s requires manual conversion: inconvertible types: %s VS %s for %s.%s''
                     [LName (TypeName (h2 inType)), LStr (MemberName inMember),
                      LName (TypeName (h2 imt)), LName (TypeName (h2 omt)),
                      LName (TypeName (h2 outType)), LStr (MemberName outMember)]],
                errs = []\<rparr>
      | Some handler \<Rightarrow>
          (case handler h2 (NewNamedVariable ''in'' (Some inType))
                  (NewNamedVariable ''out'' (Some outType)) inMember outMember of
             (handlerWritten, e) \<Rightarrow>
               Some \<lparr>emitted = handlerWritten, logged = [], errs = errlist e\<rparr>))"
  by (simp add: inconvertibleFields_def klog_def split: option.splits prod.splits)

lemma nested_written:
  "seq_res [\<lparr>emitted = xs, logged = [], errs = []\<rparr>, nested\<lparr>errs := []\<rparr>,
            \<lparr>emitted = ys, logged = [], errs = []\<rparr>] =
     \<lparr>emitted = xs @ emitted nested @ ys, logged = logged nested, errs = []\<rparr>"
  by (simp add: seq_res_Cons seq_res_Nil app_res_def emit_def)

lemma doStructMemberKind_written:
  "doStructMemberKind g hp h2 inType outType imt omt inMember outMember args =
     (let k = Kind (h2 imt);
          written = (\<lambda>snippets. Some \<lparr>emitted = snippets, logged = [], errs = []\<rparr>);
          assign = Do ''out.$.name$ = in.$.name$\<newline>'' (AArgs args);
          convert = Do (''out.$.name$ = $.outType|'' @ rawNamer @ ''$(in.$.name$)\<newline>'')
                     (AArgs args);
          assignable = isDirectlyAssignable hp h2 (Some imt) (Some omt)
      in if k \<noteq> Kind (h2 omt) then
              Some (inconvertibleFields g hp h2 inType outType imt omt inMember outMember)
            else if k = Builtin then written [if imt = omt then assign else convert]
            else if k = Map \<or> k = Slice \<or> k = Pointer then
              (if assignable then written [assign]
               else
                 (case generateFor g hp h2 imt omt of
                    None \<Rightarrow> None
                  | Some nested \<Rightarrow>
                      Some \<lparr>emitted =
                              [Do ''if in.$.name$ != nil {\<newline>'' (AArgs args),
                               Do ''in, out := &in.$.name$, &out.$.name$\<newline>'' (AArgs args)]
                              @ emitted nested
                              @ [Do ''} else {\<newline>'' ANil,
                                 Do ''out.$.name$ = nil\<newline>'' (AArgs args),
                                 Do ''}\<newline>'' ANil],
                            logged = logged nested, errs = []\<rparr>))
            else if k = Struct then
              (if assignable then written [assign]
               else internalOrExternal g hp h2 inType outType imt omt inMember outMember args)
            else if k = Alias then
              (if assignable then written [if imt = omt then assign else convert]
               else internalOrExternal g hp h2 inType outType imt omt inMember outMember args)
            else internalOrExternal g hp h2 inType outType imt omt inMember outMember args)"
  unfolding doStructMemberKind.simps Let_def emit_def nested_written
  by (rule refl)

text \<open>Two facts of the worked examples.\<close>

lemma ex_cowp_Same:
  "convertibleOnlyWithinPackage exampleGenerator exampleHelpers exampleStore
     (Some aSame) (Some bSame) = Some (True, [])"
proof -
  have priv: "\<not> IsPrivateGoName exampleHelpers ''Same''"
    by (simp add: exampleHelpers_def)
  show ?thesis
    using priv
    by (simp add: convertibleOnlyWithinPackage_def Let_def example_names example_fields
          example_kinds example_comments ex_notOptedOut)
qed

lemma ex_extra: "extraArgumentsString exampleGenerator = []"
  by (simp add: extraArgumentsString_def example_fields example_options)

text \<open>
  C10, as amended. Let a member not be opted out and have a member of its name in the target
  type. The raw reinterpretation is written for it exactly when the unsafe conversion is
  approved (unsafe conversions enabled and the arbiter agreeing) \<^emph>\<open>and\<close> the kind of its
  type, \<^emph>\<open>once an alias is replaced by the copy of its underlying type\<close>, is pointer, map
  or slice: a member that is declared with an alias of a map does get it. A member of any
  other kind never gets it, approved or not: it goes on to the check of a manual conversion
  function (nothing is written for a function tagged \<^verbatim>\<open>drop\<close>; the function is
  called unless it is copy-only and the conversion is fast) and, when no function takes it,
  to the conversion by kind: the handler of inconvertible fields or a warning when the two
  kinds differ, an assignment or a conversion for a builtin, an assignment for a struct
  that is directly assignable, and otherwise the call of the internal conversion function
  or the external handler, as the cross-package policy decides. The theorem gives what is
  written, logged and returned in every case.
\<close>

theorem unsafe_fast_path_by_unwrapped_kind:
  assumes "\<not> optedOut g hp (MemberCommentLines inMember)"
    and "findMember hp h outType (MemberName inMember) = Some outMember"
  shows "doStructMember g hp h inType outType inMember =
    (let h2 = memberStore hp h inMember outMember;
         imt = inMemberTypeOf hp h inMember;
         omt = outMemberTypeOf hp h inMember outMember;
         k = Kind (h2 imt);
         approved = useUnsafeConversion g h2 imt omt;
         named = With (argsFromType hp h2 (Some imt) (Some omt))
                   ''name'' (StrVal (MemberName inMember));
         args = (if approved then With named ''Pointer'' (TypeVal (Some unsafePointerRef))
                 else named);
         written = (\<lambda>snippets. Some \<lparr>emitted = snippets, logged = [], errs = []\<rparr>);
         assign = Do ''out.$.name$ = in.$.name$\<newline>'' (AArgs args);
         convert = Do (''out.$.name$ = $.outType|'' @ rawNamer @ ''$(in.$.name$)\<newline>'')
                     (AArgs args);
         assignable = isDirectlyAssignable hp h2 (Some imt) (Some omt);
         internalOrExternalCall =
           (case convertibleOnlyWithinPackage g hp h2 (Some imt) (Some omt) of
              None \<Rightarrow> None
            | Some (permitted, lg) \<Rightarrow>
                if permitted then
                  Some \<lparr>emitted =
                          [Do (''if err := ''
                                 @ conversionFunctionNameTemplate hp publicImportTrackingNamer
                                 @ ''(&in.$.name$, &out.$.name$'' @ extraArgumentsString g
                                 @ ''); err != nil {\<newline>'') (AArgs args),
                           Do ''return err\<newline>}\<newline>'' ANil],
                        logged = lg, errs = []\<rparr>
                else
                  (case ExternalConversionsHandler (Options g) of
                     None \<Rightarrow>
                       Some \<lparr>emitted = [],
                             logged = lg @
                               [Warningf
                                  ''%s.%s requires manual conversion to external type %s.%s''
                                  [LName (TypeName (h2 inType)), LStr (MemberName inMember),
                                   LName (TypeName (h2 outType)), LStr (MemberName outMember)]],
                             errs = []\<rparr>
                   | Some handler \<Rightarrow>
                       (case handler h2
                               (NewNamedVariable (''&in.'' @ MemberName inMember) (Some imt))
                               (NewNamedVariable (''&out.'' @ MemberName outMember) (Some omt)) of
                          (handlerWritten, handled, e) \<Rightarrow>
                            Some \<lparr>emitted = handlerWritten, logged = lg, errs = errlist e\<rparr>)));
         byKind =
           (if k \<noteq> Kind (h2 omt) then
              (case InconvertibleFieldsHandler (Options g) of
                 None \<Rightarrow>
                   Some \<lparr>emitted = [],
                         logged =
                           [Warningf
                              ''%s.%s requires manual conversion: inconvertible types: %s VS %s for %s.%s''
                              [LName (TypeName (h2 inType)), LStr (MemberName inMember),
                               LName (TypeName (h2 imt)), LName (TypeName (h2 omt)),
                               LName (TypeName (h2 outType)), LStr (MemberName outMember)]],
                         errs = []\<rparr>
               | Some handler \<Rightarrow>
                   (case handler h2 (NewNamedVariable ''in'' (Some inType))
                           (NewNamedVariable ''out'' (Some outType)) inMember outMember of
                      (handlerWritten, e) \<Rightarrow>
                        Some \<lparr>emitted = handlerWritten, logged = [], errs = errlist e\<rparr>))
            else if k = Builtin then written [if imt = omt then assign else convert]
            else if k = Map \<or> k = Slice \<or> k = Pointer then
              (if assignable then written [assign]
               else
                 (case generateFor g hp h2 imt omt of
                    None \<Rightarrow> None
                  | Some nested \<Rightarrow>
                      Some \<lparr>emitted =
                              [Do ''if in.$.name$ != nil {\<newline>'' (AArgs args),
                               Do ''in, out := &in.$.name$, &out.$.name$\<newline>'' (AArgs args)]
                              @ emitted nested
                              @ [Do ''} else {\<newline>'' ANil,
                                 Do ''out.$.name$ = nil\<newline>'' (AArgs args),
                                 Do ''}\<newline>'' ANil],
                            logged = logged nested, errs = []\<rparr>))
            else if k = Struct then
              (if assignable then written [assign] else internalOrExternalCall)
            else if k = Alias then
              (if assignable then written [if imt = omt then assign else convert]
               else internalOrExternalCall)
            else internalOrExternalCall)
     in if approved \<and> k = Pointer then
          written
            [Do (''out.$.name$ = ($.outType|'' @ rawNamer @ ''$)($.Pointer|'' @ rawNamer
                   @ ''$(in.$.name$))\<newline>'') (AArgs args)]
        else if approved \<and> (k = Map \<or> k = Slice) then
          written
            [Do (''out.$.name$ = *(*$.outType|'' @ rawNamer @ ''$)($.Pointer|'' @ rawNamer
                   @ ''$(&in.$.name$))\<newline>'') (AArgs args)]
        else
          (case preexists g (Some (MemberType inMember)) (Some (MemberType outMember)) of
             None \<Rightarrow> byKind
           | Some function \<Rightarrow>
               if functionHasTag g hp h2 function ''drop'' then written []
               else if \<not> functionHasTag g hp h2 function ''copy-only''
                       \<or> \<not> isFastConversion hp h2 imt omt then
                 written
                   [Do (''if err := $.function|'' @ rawNamer @ ''$(&in.$.name$, &out.$.name$''
                          @ extraArgumentsString g @ ''); err != nil {\<newline>'')
                      (AArgs (setArg args ''function'' (TypeVal (Some (h2 function))))),
                    Do ''return err\<newline>'' ANil,
                    Do ''}\<newline>'' ANil]
               else
                 (case byKind of
                    None \<Rightarrow> None
                  | Some r \<Rightarrow>
                      Some (r\<lparr>logged :=
                        InfofV5
                          ''Skipped function %s because it is copy-only and we can use direct assignment''
                          [LName (TypeName (h2 function))]
                        # logged r\<rparr>))))"
proof -
  let ?h2 = "memberStore hp h inMember outMember"
  let ?imt = "inMemberTypeOf hp h inMember"
  let ?omt = "outMemberTypeOf hp h inMember outMember"
  let ?k = "Kind (?h2 ?imt)"
  let ?approved = "useUnsafeConversion g ?h2 ?imt ?omt"
  have step: "doStructMember g hp h inType outType inMember =
      (if ?approved \<and> (?k = Pointer \<or> ?k = Map \<or> ?k = Slice)
       then Some (emit [unsafeSnippet ?k (memberArgs g hp h inMember outMember)])
       else doStructMemberManual g hp ?h2 inType outType ?imt ?omt inMember outMember
              (memberArgs g hp h inMember outMember))"
    using assms by (simp add: doStructMember.simps Let_def)
  have logs: "app_res (klog [x]) r = r\<lparr>logged := x # logged r\<rparr>" for x r
    by (simp add: app_res_def klog_def)
  show ?thesis
    unfolding step doStructMemberManual.simps doStructMemberKind_written
      internalOrExternal_written inconvertibleFields_written manualCall_def unsafeSnippet_def
      memberArgs_def Let_def emit_def logs
    by (cases ?approved; cases "?k = Pointer"; cases "?k = Map \<or> ?k = Slice")
       (simp_all del: With.simps split del: if_split cong: if_cong)
qed


text \<open>
  C10 at work: the unsafe conversion is approved for both members; \<^verbatim>\<open>Foo\<close>, a pointer,
  is reinterpreted, and \<^verbatim>\<open>Same\<close>, a struct, is converted by the call of the internal
  conversion function of its types.
\<close>

theorem unsafe_fast_path_by_unwrapped_kind_witness:
  "doStructMember exampleGenerator exampleHelpers exampleStore aOuter bOuter mFoo =
     Some \<lparr>emitted =
       [Do ''out.$.name$ = ($.outType|ConversionGenerator_raw$)($.Pointer|ConversionGenerator_raw$(in.$.name$))\<newline>''
          (AArgs [(''inType'', TypeVal (Some (exampleStore aPtrSame))),
                  (''outType'', TypeVal (Some (exampleStore bPtrSame))),
                  (''name'', StrVal ''Foo''),
                  (''Pointer'', TypeVal (Some unsafePointerRef))])],
       logged = [], errs = []\<rparr>
   \<and> Kind (exampleStore (MemberType mSame)) = Struct
   \<and> useUnsafeConversion exampleGenerator exampleStore aSame bSame
   \<and> doStructMember exampleGenerator exampleHelpers exampleStore aHolder bHolder mSame =
       Some \<lparr>emitted =
         [Do ''if err := Convert_$.inType|ConversionGenerator_publicIT$_To_$.outType|ConversionGenerator_publicIT$(&in.$.name$, &out.$.name$); err != nil {\<newline>''
            (AArgs [(''inType'', TypeVal (Some (exampleStore aSame))),
                    (''outType'', TypeVal (Some (exampleStore bSame))),
                    (''name'', StrVal ''Same''),
                    (''Pointer'', TypeVal (Some unsafePointerRef))]),
          Do ''return err\<newline>}\<newline>'' ANil],
         logged = [], errs = []\<rparr>"
proof -
  have foo: "\<not> optedOut exampleGenerator exampleHelpers (MemberCommentLines mFoo)"
    and same: "\<not> optedOut exampleGenerator exampleHelpers (MemberCommentLines mSame)"
    by (simp_all add: example_member_fields ex_notOptedOut)
  have ffoo: "findMember exampleHelpers exampleStore bOuter (MemberName mFoo)
                = Some (mkMember ''Foo'' [] bPtrSame)"
    and fsame: "findMember exampleHelpers exampleStore bHolder (MemberName mSame)
                = Some (mkMember ''Same'' [] bSame)"
    by (simp_all add: example_member_fields ex_find)
  have approved: "useUnsafeConversion exampleGenerator exampleStore aPtrSame bPtrSame"
    "useUnsafeConversion exampleGenerator exampleStore aSame bSame"
    by (simp_all add: useUnsafeConversion_def example_fields example_options example_arbiter)
  show ?thesis
    using unsafe_fast_path_by_unwrapped_kind [OF foo ffoo, of aOuter]
          unsafe_fast_path_by_unwrapped_kind [OF same fsame, of aHolder]
          approved
    by (simp add: Let_def example_members example_member_fields example_kinds
          example_preexists example_helpers example_distinct ex_cowp_Same ex_extra
          rawNamer_def publicImportTrackingNamer_def tval_def)
qed

text \<open>
  C10 as stated fails. The member \<^verbatim>\<open>Labels\<close> is declared with the alias
  \<^verbatim>\<open>a.Labels\<close>, of kind alias, and it gets the raw reinterpretation: the kind that
  \<^verbatim>\<open>doStruct\<close> examines is the kind of the copy of the underlying map. The member
  \<^verbatim>\<open>Pair\<close>, a struct for which the unsafe conversion is approved, does not go on to the
  conversion by kind: its manual conversion function is called.
\<close>

theorem unsafe_for_alias_member_counterexample:
  "Kind (exampleStore (MemberType mLabels)) = Alias
   \<and> findMember exampleHelpers exampleStore bTagged (MemberName mLabels)
       = Some (mkMember ''Labels'' [] bLabels)
   \<and> doStructMember exampleGenerator exampleHelpers exampleStore aTagged bTagged mLabels =
       Some \<lparr>emitted =
         [Do ''out.$.name$ = *(*$.outType|ConversionGenerator_raw$)($.Pointer|ConversionGenerator_raw$(&in.$.name$))\<newline>''
            (AArgs [(''inType'',
                     TypeVal (Some ((exampleStore tMapStringString)
                                      \<lparr>TypeName := \<lparr>Package = ''a'', Name = ''Labels''\<rparr>\<rparr>))),
                    (''outType'',
                     TypeVal (Some ((exampleStore tMapStringString)
                                      \<lparr>TypeName := \<lparr>Package = ''b'', Name = ''Labels''\<rparr>\<rparr>))),
                    (''name'', StrVal ''Labels''),
                    (''Pointer'', TypeVal (Some unsafePointerRef))])],
         logged = [], errs = []\<rparr>
   \<and> Kind (exampleStore (MemberType mPair)) = Struct
   \<and> findMember exampleHelpers exampleStore bTagged (MemberName mPair)
       = Some (mkMember ''Pair'' [] bPair)
   \<and> useUnsafeConversion exampleGenerator exampleStore aPair bPair
   \<and> doStructMember exampleGenerator exampleHelpers exampleStore aTagged bTagged mPair =
       Some \<lparr>emitted =
         [Do ''if err := $.function|ConversionGenerator_raw$(&in.$.name$, &out.$.name$); err != nil {\<newline>''
            (AArgs [(''inType'', TypeVal (Some (exampleStore aPair))),
                    (''outType'', TypeVal (Some (exampleStore bPair))),
                    (''name'', StrVal ''Pair''),
                    (''Pointer'', TypeVal (Some unsafePointerRef)),
                    (''function'', TypeVal (Some (exampleStore fnPair)))]),
          Do ''return err\<newline>'' ANil,
          Do ''}\<newline>'' ANil],
         logged = [], errs = []\<rparr>"
proof -
  have unsafe: "useUnsafeConversion exampleGenerator
                  (memberStore exampleHelpers exampleStore mLabels (mkMember ''Labels'' [] bLabels))
                  (inMemberTypeOf exampleHelpers exampleStore mLabels)
                  (outMemberTypeOf exampleHelpers exampleStore mLabels
                     (mkMember ''Labels'' [] bLabels))"
    using ex_labels_arbiter
    by (simp add: useUnsafeConversion_def example_fields example_options)
  have labels: "doStructMember exampleGenerator exampleHelpers exampleStore aTagged bTagged mLabels =
       Some \<lparr>emitted =
         [Do ''out.$.name$ = *(*$.outType|ConversionGenerator_raw$)($.Pointer|ConversionGenerator_raw$(&in.$.name$))\<newline>''
            (AArgs [(''inType'',
                     TypeVal (Some ((exampleStore tMapStringString)
                                      \<lparr>TypeName := \<lparr>Package = ''a'', Name = ''Labels''\<rparr>\<rparr>))),
                    (''outType'',
                     TypeVal (Some ((exampleStore tMapStringString)
                                      \<lparr>TypeName := \<lparr>Package = ''b'', Name = ''Labels''\<rparr>\<rparr>))),
                    (''name'', StrVal ''Labels''),
                    (''Pointer'', TypeVal (Some unsafePointerRef))])],
         logged = [], errs = []\<rparr>"
    using unsafe
    by (simp add: doStructMember.simps Let_def example_member_fields ex_labels_find
          ex_notOptedOut ex_labels_kind ex_labels_args unsafeSnippet_def rawNamer_def emit_def)
  have approved: "useUnsafeConversion exampleGenerator exampleStore aPair bPair"
    by (simp add: useUnsafeConversion_def example_fields example_options example_arbiter)
  have find: "findMember exampleHelpers exampleStore bTagged ''Pair''
                = Some (mkMember ''Pair'' [] bPair)"
    by (simp add: example_helpers example_membersOf example_member_fields)
  have args: "memberArgs exampleGenerator exampleHelpers exampleStore mPair
                (mkMember ''Pair'' [] bPair) =
     [(''inType'', TypeVal (Some (exampleStore aPair))),
      (''outType'', TypeVal (Some (exampleStore bPair))),
      (''name'', StrVal ''Pair''),
      (''Pointer'', TypeVal (Some unsafePointerRef))]"
    using approved
    by (simp add: memberArgs_def Let_def example_members example_member_fields example_kinds
          example_helpers tval_def)
  have pair: "doStructMember exampleGenerator exampleHelpers exampleStore aTagged bTagged mPair =
       Some \<lparr>emitted =
         [Do ''if err := $.function|ConversionGenerator_raw$(&in.$.name$, &out.$.name$); err != nil {\<newline>''
            (AArgs [(''inType'', TypeVal (Some (exampleStore aPair))),
                    (''outType'', TypeVal (Some (exampleStore bPair))),
                    (''name'', StrVal ''Pair''),
                    (''Pointer'', TypeVal (Some unsafePointerRef)),
                    (''function'', TypeVal (Some (exampleStore fnPair)))]),
          Do ''return err\<newline>'' ANil,
          Do ''}\<newline>'' ANil],
         logged = [], errs = []\<rparr>"
    using approved find
    by (simp add: doStructMember.simps doStructMemberManual.simps Let_def example_member_fields
          ex_notOptedOut example_members example_kinds example_preexists
          example_function_tags example_helpers example_distinct args manualCall_def ex_extra
          rawNamer_def emit_def)
  show ?thesis
    using labels pair approved find
    by (simp add: example_member_fields example_kinds ex_labels_find)
qed

section \<open>C2: manual conversion functions tagged drop\<close>




section \<open>C3: manual conversion functions tagged copy-only\<close>

text \<open>
  C3, as amended. For a member that is not opted out, has a member of its name in the target
  type and is not taken by the unsafe fast path: when the manual conversion function of its
  type pair is tagged \<^verbatim>\<open>copy-only\<close> (and not \<^verbatim>\<open>drop\<close>), the function is called
  exactly when the conversion of the two member types is \<^emph>\<open>not\<close> fast
  (\<^verbatim>\<open>isFastConversion\<close>); when it is fast, the function is ignored, which is logged,
  and the member goes on to the conversion by kind.
\<close>

theorem copy_only_called_unless_fast:
  assumes "\<not> optedOut g hp (MemberCommentLines inMember)"
    and "findMember hp h outType (MemberName inMember) = Some outMember"
    and "\<not> (useUnsafeConversion g (memberStore hp h inMember outMember)
            (inMemberTypeOf hp h inMember) (outMemberTypeOf hp h inMember outMember)
         \<and> Kind (memberStore hp h inMember outMember (inMemberTypeOf hp h inMember))
             \<in> {Pointer, Map, Slice})"
    and "preexists g (Some (MemberType inMember)) (Some (MemberType outMember)) = Some function"
    and "\<not> functionHasTag g hp (memberStore hp h inMember outMember) function ''drop''"
    and "functionHasTag g hp (memberStore hp h inMember outMember) function ''copy-only''"
  shows "doStructMember g hp h inType outType inMember =
     (if isFastConversion hp (memberStore hp h inMember outMember)
           (inMemberTypeOf hp h inMember) (outMemberTypeOf hp h inMember outMember)
      then map_option
             (app_res (klog [InfofV5
                ''Skipped function %s because it is copy-only and we can use direct assignment''
                [LName (TypeName (memberStore hp h inMember outMember function))]]))
             (doStructMemberKind g hp (memberStore hp h inMember outMember) inType outType
                (inMemberTypeOf hp h inMember) (outMemberTypeOf hp h inMember outMember)
                inMember outMember (memberArgs g hp h inMember outMember))
      else Some (emit (manualCall g (memberArgs g hp h inMember outMember)
                         (memberStore hp h inMember outMember function))))"
  using assms
  by (auto simp: doStructMember.simps doStructMemberManual.simps Let_def split: option.splits)

text \<open>
  C3 at work: the copy-only function of \<^verbatim>\<open>Inner\<close> is called, the one of the string
  \<^verbatim>\<open>X\<close> is ignored.
\<close>

theorem copy_only_called_unless_fast_witness:
  "\<not> isFastConversion exampleHelpers exampleStore aInner bInner
   \<and> doStructMember exampleGenerator exampleHelpers exampleStore aOuter bOuter mInner =
       Some (emit (manualCall exampleGenerator
               [(''inType'', TypeVal (Some (exampleStore aInner))),
                (''outType'', TypeVal (Some (exampleStore bInner))),
                (''name'', StrVal ''Inner'')]
               (exampleStore fnInner)))
   \<and> isFastConversion exampleHelpers exampleStore tString tString
   \<and> doStructMember exampleGenerator exampleHelpers exampleStore aSame bSame mX =
       Some \<lparr>emitted =
               [Do ''out.$.name$ = in.$.name$\<newline>''
                  (AArgs [(''inType'', TypeVal (Some (exampleStore tString))),
                          (''outType'', TypeVal (Some (exampleStore tString))),
                          (''name'', StrVal ''X''),
                          (''Pointer'', TypeVal (Some unsafePointerRef))])],
             logged =
               [InfofV5
                  ''Skipped function %s because it is copy-only and we can use direct assignment''
                  [LName \<lparr>Package = ''b'', Name = ''Convert_string_To_string''\<rparr>]],
             errs = []\<rparr>"
proof -
  have i1: "\<not> optedOut exampleGenerator exampleHelpers (MemberCommentLines mInner)"
    and x1: "\<not> optedOut exampleGenerator exampleHelpers (MemberCommentLines mX)"
    by (simp_all add: example_member_fields ex_notOptedOut)
  have i2: "findMember exampleHelpers exampleStore bOuter (MemberName mInner)
              = Some (mkMember ''Inner'' [] bInner)"
    and x2: "findMember exampleHelpers exampleStore bSame (MemberName mX)
              = Some (mkMember ''X'' [] tString)"
    by (simp_all add: example_member_fields ex_find)
  have i3: "\<not> (useUnsafeConversion exampleGenerator
                  (memberStore exampleHelpers exampleStore mInner (mkMember ''Inner'' [] bInner))
                  (inMemberTypeOf exampleHelpers exampleStore mInner)
                  (outMemberTypeOf exampleHelpers exampleStore mInner (mkMember ''Inner'' [] bInner))
               \<and> Kind (memberStore exampleHelpers exampleStore mInner (mkMember ''Inner'' [] bInner)
                         (inMemberTypeOf exampleHelpers exampleStore mInner))
                   \<in> {Pointer, Map, Slice})"
    and x3: "\<not> (useUnsafeConversion exampleGenerator
                  (memberStore exampleHelpers exampleStore mX (mkMember ''X'' [] tString))
                  (inMemberTypeOf exampleHelpers exampleStore mX)
                  (outMemberTypeOf exampleHelpers exampleStore mX (mkMember ''X'' [] tString))
               \<and> Kind (memberStore exampleHelpers exampleStore mX (mkMember ''X'' [] tString)
                         (inMemberTypeOf exampleHelpers exampleStore mX))
                   \<in> {Pointer, Map, Slice})"
    by (simp_all add: example_members example_member_fields example_kinds)
  have i4: "preexists exampleGenerator (Some (MemberType mInner))
              (Some (MemberType (mkMember ''Inner'' [] bInner))) = Some fnInner"
    and x4: "preexists exampleGenerator (Some (MemberType mX))
              (Some (MemberType (mkMember ''X'' [] tString))) = Some fnString"
    by (simp_all add: example_member_fields example_preexists)
  have i5: "\<not> functionHasTag exampleGenerator exampleHelpers
              (memberStore exampleHelpers exampleStore mInner (mkMember ''Inner'' [] bInner))
              fnInner ''drop''"
    and x5: "\<not> functionHasTag exampleGenerator exampleHelpers
              (memberStore exampleHelpers exampleStore mX (mkMember ''X'' [] tString))
              fnString ''drop''"
    by (simp_all add: example_members example_member_fields example_kinds
          example_function_tags)
  have i6: "functionHasTag exampleGenerator exampleHelpers
              (memberStore exampleHelpers exampleStore mInner (mkMember ''Inner'' [] bInner))
              fnInner ''copy-only''"
    and x6: "functionHasTag exampleGenerator exampleHelpers
              (memberStore exampleHelpers exampleStore mX (mkMember ''X'' [] tString))
              fnString ''copy-only''"
    by (simp_all add: example_members example_member_fields example_kinds
          example_function_tags)
  have fast: "\<not> isFastConversion exampleHelpers exampleStore aInner bInner"
    "isFastConversion exampleHelpers exampleStore tString tString"
    by (simp_all add: example_helpers example_kinds example_distinct)
  have kind: "doStructMemberKind exampleGenerator exampleHelpers exampleStore aSame bSame
                tString tString mX (mkMember ''X'' [] tString)
                [(''inType'', TypeVal (Some (exampleStore tString))),
                 (''outType'', TypeVal (Some (exampleStore tString))),
                 (''name'', StrVal ''X''),
                 (''Pointer'', TypeVal (Some unsafePointerRef))] =
              Some (emit [Do ''out.$.name$ = in.$.name$\<newline>''
                  (AArgs [(''inType'', TypeVal (Some (exampleStore tString))),
                          (''outType'', TypeVal (Some (exampleStore tString))),
                          (''name'', StrVal ''X''),
                          (''Pointer'', TypeVal (Some unsafePointerRef))])])"
    by (simp add: doStructMemberKind.simps Let_def example_kinds)
  show ?thesis
    using copy_only_called_unless_fast [OF i1 i2 i3 i4 i5 i6, of aOuter]
          copy_only_called_unless_fast [OF x1 x2 x3 x4 x5 x6, of aSame]
          fast kind
    by (simp add: example_members example_member_fields example_kinds ex_args example_names
          app_res_def klog_def emit_def)
qed

text \<open>
  C3 as stated fails: the structs \<^verbatim>\<open>a.Inner\<close> and \<^verbatim>\<open>b.Inner\<close> are not
  layout-equivalent, for the arbiter as for \<^verbatim>\<open>isFastConversion\<close>, and the copy-only
  function of the pair is called.
\<close>

theorem copy_only_not_layout_equivalent_counterexample:
  "preexists exampleGenerator (Some (MemberType mInner)) (Some bInner) = Some fnInner
   \<and> functionHasTag exampleGenerator exampleHelpers exampleStore fnInner ''copy-only''
   \<and> findMember exampleHelpers exampleStore bOuter (MemberName mInner)
       = Some (mkMember ''Inner'' [] bInner)
   \<and> \<not> isFastConversion exampleHelpers exampleStore aInner bInner
   \<and> \<not> unsafeConversionArbitrator exampleGenerator exampleStore aInner bInner
   \<and> doStructMember exampleGenerator exampleHelpers exampleStore aOuter bOuter mInner =
       Some \<lparr>emitted =
         [Do ''if err := $.function|ConversionGenerator_raw$(&in.$.name$, &out.$.name$); err != nil {\<newline>''
            (AArgs [(''inType'', TypeVal (Some (exampleStore aInner))),
                    (''outType'', TypeVal (Some (exampleStore bInner))),
                    (''name'', StrVal ''Inner''),
                    (''function'', TypeVal (Some (exampleStore fnInner)))]),
         Do ''return err\<newline>'' ANil,
         Do ''}\<newline>'' ANil],
         logged = [], errs = []\<rparr>"
proof -
  have fast: "\<not> isFastConversion exampleHelpers exampleStore aInner bInner"
    by (simp add: example_helpers example_kinds example_distinct)
  show ?thesis
    using fast
    by (simp add: doStructMember.simps doStructMemberManual.simps Let_def example_member_fields
          example_preexists example_function_tags ex_find ex_notOptedOut example_members
          example_kinds ex_args useUnsafeConversion_def example_fields example_options
          example_arbiter manualCall_def extraArgumentsString_def rawNamer_def emit_def)
qed

section \<open>Generation never panics on a well-formed store\<close>

text \<open>
  A panic of the generator is the result \<open>None\<close>. On a store in which maps, slices and
  pointers have their element type, the generator returns for every pair, except that a
  map, slice or pointer as the source needs a target that has an element type too. The
  pairs that \<^verbatim>\<open>GenerateType\<close> requests are pairs of named types, which are never of
  kind map, slice or pointer.
\<close>

lemma convertibleOnlyWithinPackage_total:
  "\<exists>c lg. convertibleOnlyWithinPackage g hp h (Some a) (Some b) = Some (c, lg)"
  by (auto simp: convertibleOnlyWithinPackage_def Let_def)

lemma doMap_total:
  assumes "Elem (h inType) \<noteq> None" and "Elem (h outType) \<noteq> None"
  shows "doMap g hp h inType outType \<noteq> None"
proof -
  obtain a b where ab: "Elem (h inType) = Some a" "Elem (h outType) = Some b"
    using assms by auto
  obtain c lg where c: "convertibleOnlyWithinPackage g hp h (Some a) (Some b) = Some (c, lg)"
    using convertibleOnlyWithinPackage_total [of g hp h a b] by blast
  show ?thesis
    using ab c by (simp add: doMap_def Let_def split: option.splits prod.splits bool.splits)
qed

lemma doSlice_total:
  assumes "Elem (h inType) \<noteq> None" and "Elem (h outType) \<noteq> None"
  shows "doSlice g hp h inType outType \<noteq> None"
proof -
  obtain a b where ab: "Elem (h inType) = Some a" "Elem (h outType) = Some b"
    using assms by auto
  obtain c lg where c: "convertibleOnlyWithinPackage g hp h (Some a) (Some b) = Some (c, lg)"
    using convertibleOnlyWithinPackage_total [of g hp h a b] by blast
  show ?thesis
    using ab c
    by (simp add: doSlice_def sameBuiltinElem_def Let_def split: option.splits prod.splits bool.splits)
qed

lemma doPointer_total:
  assumes "Elem (h inType) \<noteq> None" and "Elem (h outType) \<noteq> None"
  shows "doPointer g hp h inType outType \<noteq> None"
proof -
  obtain a b where ab: "Elem (h inType) = Some a" "Elem (h outType) = Some b"
    using assms by auto
  obtain c lg where c: "convertibleOnlyWithinPackage g hp h (Some a) (Some b) = Some (c, lg)"
    using convertibleOnlyWithinPackage_total [of g hp h a b] by blast
  show ?thesis
    using ab c by (simp add: doPointer_def Let_def split: option.splits prod.splits bool.splits)
qed

lemma generateFor_Some_iff:
  "generateFor g hp h inType outType \<noteq> None \<longleftrightarrow>
     (if Kind (h inType) = Map then doMap g hp h inType outType \<noteq> None
      else if Kind (h inType) = Slice then doSlice g hp h inType outType \<noteq> None
      else if Kind (h inType) = Struct then doStruct g hp h inType outType \<noteq> None
      else if Kind (h inType) = Pointer then doPointer g hp h inType outType \<noteq> None
      else True)"
  by (cases "Kind (h inType)") (simp_all add: generateFor.simps split: option.splits)

lemma generateFor_container_total:
  assumes "Kind (h inType) = Map \<or> Kind (h inType) = Slice \<or> Kind (h inType) = Pointer"
    and "Elem (h inType) \<noteq> None" and "Elem (h outType) \<noteq> None"
  shows "generateFor g hp h inType outType \<noteq> None"
  using assms doMap_total [of h inType outType g hp] doSlice_total [of h inType outType g hp]
    doPointer_total [of h inType outType g hp]
  by (auto simp: generateFor_Some_iff simp del: not_None_eq)

lemma wfStore_aliasCopy:
  assumes "wfStore h"
  shows "wfStore (fst (aliasCopy hp h fresh t))"
  using assms by (auto simp: wfStore_def aliasCopy_def Let_def)

lemma wfStore_memberStore:
  assumes "wfStore h"
  shows "wfStore (memberStore hp h inMember outMember)"
  unfolding memberStore_def using assms by (intro wfStore_aliasCopy)

lemma internalOrExternal_total:
  "internalOrExternal g hp h inType outType imt omt m m' args \<noteq> None"
  using convertibleOnlyWithinPackage_total [of g hp h imt omt]
  by (auto simp: internalOrExternal_def split: bool.splits)

lemma doStructMemberKind_total:
  assumes "wfStore h2"
  shows "doStructMemberKind g hp h2 inType outType imt omt m m' args \<noteq> None"
proof (cases "Kind (h2 imt) = Kind (h2 omt)
              \<and> (Kind (h2 imt) = Map \<or> Kind (h2 imt) = Slice \<or> Kind (h2 imt) = Pointer)
              \<and> \<not> isDirectlyAssignable hp h2 (Some imt) (Some omt)")
  case True
  then have "Elem (h2 imt) \<noteq> None" "Elem (h2 omt) \<noteq> None"
    using assms unfolding wfStore_def by metis+
  then have "generateFor g hp h2 imt omt \<noteq> None"
    using True by (intro generateFor_container_total) auto
  then show ?thesis
    using True by (auto simp: doStructMemberKind.simps Let_def)
next
  case False
  then show ?thesis
    using internalOrExternal_total [of g hp h2 inType outType imt omt m m' args]
    by (auto simp: doStructMemberKind.simps Let_def)
qed

lemma doStructMemberManual_total:
  assumes "wfStore h2"
  shows "doStructMemberManual g hp h2 inType outType imt omt m m' args \<noteq> None"
  using doStructMemberKind_total [OF assms, of g hp inType outType imt omt m m' args]
  by (auto simp: doStructMemberManual.simps split: option.splits)

lemma doStructMember_total:
  assumes "wfStore h"
  shows "doStructMember g hp h inType outType m \<noteq> None"
proof (cases "findMember hp h outType (MemberName m)")
  case None
  then show ?thesis by (simp add: doStructMember.simps)
next
  case (Some m')
  show ?thesis
    using Some doStructMemberManual_total [OF wfStore_memberStore [OF assms, of hp m m']]
    by (simp add: doStructMember.simps Let_def)
qed

lemma doStructMembers_total:
  assumes "wfStore h"
  shows "doStructMembers g hp h inType outType ms \<noteq> None"
proof (induction ms)
  case Nil
  show ?case by simp
next
  case (Cons m ms)
  then show ?case
    using doStructMember_total [OF assms, of g hp inType outType m]
    by (auto split: option.splits)
qed

lemma generateFor_total:
  assumes "wfStore h"
    and "Kind (h inType) = Map \<or> Kind (h inType) = Slice \<or> Kind (h inType) = Pointer
           \<longrightarrow> Elem (h outType) \<noteq> None"
  shows "generateFor g hp h inType outType \<noteq> None"
proof (cases "Kind (h inType) = Map \<or> Kind (h inType) = Slice \<or> Kind (h inType) = Pointer")
  case True
  then have "Elem (h inType) \<noteq> None" using assms(1) unfolding wfStore_def by metis
  then show ?thesis using True assms(2) by (intro generateFor_container_total) auto
next
  case False
  then show ?thesis
    using doStructMembers_total [OF assms(1), of g hp inType outType "Members (h inType)"]
    by (auto simp: generateFor_Some_iff doStruct.simps simp del: not_None_eq)
qed

lemma emitted_privateFunction:
  "emitted (privateFunction g hp h inType outType body) =
     Do ''func auto'' ANil # writeConversionFunctionSignature g hp h inType outType True
     @ [Do '' {\<newline>'' ANil] @ emitted body
     @ [Do ''return nil\<newline>'' ANil, Do ''}\<newline>\<newline>'' ANil]"
  by (simp add: privateFunction_def seq_res_Cons seq_res_Nil emitted_app_res res_emit)

lemma wfStore_exampleStore: "wfStore exampleStore"
  unfolding wfStore_def
proof (intro allI impI)
  fix p
  assume k: "Kind (exampleStore p) = Map \<or> Kind (exampleStore p) = Slice
               \<or> Kind (exampleStore p) = Pointer"
  show "Elem (exampleStore p) \<noteq> None"
  proof (cases p)
    case (Univ n)
    then show ?thesis
      using k by (simp add: exampleStore_def mkType_def split: if_splits)
  next
    case CopiedIn
    then show ?thesis using k by (simp add: exampleStore_def mkType_def)
  next
    case CopiedOut
    then show ?thesis using k by (simp add: exampleStore_def mkType_def)
  qed
qed

lemma example_noPublicFun:
  "\<not> noPublicFun exampleGenerator exampleHelpers exampleStore aQuiet"
  "\<not> noPublicFun exampleGenerator exampleHelpers exampleStore bQuiet"
  "\<not> noPublicFun strictGenerator exampleHelpers exampleStore aQuiet"
  "\<not> noPublicFun strictGenerator exampleHelpers exampleStore bQuiet"
  by (simp_all add: noPublicFun_def hasTag_def extractTag_def extractTag_of_def example_eval)

lemma example_optedOut_Skipped:
  "optedOut exampleGenerator exampleHelpers [''+conversion-gen=false'']"
  "optedOut strictGenerator exampleHelpers [''+conversion-gen=false'']"
  by (simp_all add: optedOut_def hasTag_def extractTag_def extractTag_of_def example_eval)

lemma example_generateFor_Quiet:
  "generateFor exampleGenerator exampleHelpers exampleStore aQuiet bQuiet =
     Some \<lparr>emitted = [Do ''// INFO: in.Skipped opted out of conversion generation\<newline>'' ANil],
           logged = [InfofV5 ''generating %v -> %v''
                       [LName \<lparr>Package = ''a'', Name = ''Quiet''\<rparr>,
                        LName \<lparr>Package = ''b'', Name = ''Quiet''\<rparr>]],
           errs = []\<rparr>"
  "generateFor strictGenerator exampleHelpers exampleStore aQuiet bQuiet =
     Some \<lparr>emitted = [Do ''// INFO: in.Skipped opted out of conversion generation\<newline>'' ANil],
           logged = [InfofV5 ''generating %v -> %v''
                       [LName \<lparr>Package = ''a'', Name = ''Quiet''\<rparr>,
                        LName \<lparr>Package = ''b'', Name = ''Quiet''\<rparr>]],
           errs = []\<rparr>"
  by (simp_all add: generateFor.simps doStruct.simps doStructMember.simps example_kinds
        example_membersOf example_optedOut_Skipped example_member_fields example_names
        app_res_def klog_def emit_def)

lemma example_strict_handler:
  "MissingFieldsHandler (Options strictGenerator) = Some ErrorMissingFieldHandler"
  "MissingFieldsHandler (Options exampleGenerator) = None"
  by (simp_all add: example_fields example_options exampleOptions_def)

lemma doStructMembers_errs:
  assumes "doStructMembers g hp h inType outType ms = Some r"
    and "m \<in> set ms"
    and "doStructMember g hp h inType outType m = Some rm"
  shows "set (errs rm) \<subseteq> set (errs r)"
  using assms
proof (induction ms arbitrary: r)
  case Nil
  then show ?case by simp
next
  case (Cons a ms)
  from Cons.prems(1) obtain ra rs where
    ra: "doStructMember g hp h inType outType a = Some ra"
    and rs: "doStructMembers g hp h inType outType ms = Some rs"
    and r: "r = app_res ra rs"
    by (auto split: option.splits)
  show ?case
  proof (cases "m = a")
    case True
    then show ?thesis using ra r Cons.prems(3) by (simp add: errs_app_res)
  next
    case False
    then have "m \<in> set ms" using Cons.prems(2) by simp
    then have "set (errs rm) \<subseteq> set (errs rs)"
      using Cons.IH [OF rs _ Cons.prems(3)] by simp
    then show ?thesis using r by (auto simp: errs_app_res)
  qed
qed

lemma generateFor_struct_errs:
  assumes "Kind (h inType) = Struct"
    and "generateFor g hp h inType outType = Some body"
  shows "\<exists>r. doStructMembers g hp h inType outType (Members (h inType)) = Some r
              \<and> errs body = errs r"
  using assms
  by (auto simp: generateFor.simps doStruct.simps errs_app_res res_klog split: option.splits)

section \<open>C1: the private function and the public wrapper\<close>




section \<open>C7: members that the target type does not have\<close>

text \<open>
  C7, as amended. Let a member of a source struct \<^emph>\<open>not be opted out\<close> and have no member of
  its name in the target type, on a well-formed store. Then the pair is generated and its
  private function is written. With no \<^verbatim>\<open>MissingFieldsHandler\<close>, what the member adds
  is one warning in the log, no code and no error. With a handler that returns an error on
  the member, what the member adds is what the handler wrote and exactly this one error,
  which is among the errors of the body, and the public wrapper of the pair is not written.
\<close>

theorem missing_field_warning_or_error:
  assumes "wfStore h"
    and "Kind (h inType) = Struct"
    and "inMember \<in> set (Members (h inType))"
    and "\<not> optedOut g hp (MemberCommentLines inMember)"
    and "findMember hp h outType (MemberName inMember) = None"
  shows "\<exists>body r.
     generateFor g hp h inType outType = Some body
     \<and> generateConversion g hp h inType outType = Some r
     \<and> (\<exists>rest. emitted r = emitted (privateFunction g hp h inType outType body) @ rest)
     \<and> (MissingFieldsHandler (Options g) = None \<longrightarrow>
          doStructMember g hp h inType outType inMember =
            Some \<lparr>emitted = [],
                  logged =
                    [Warningf ''%s.%s requires manual conversion: does not exist in peer-type %s''
                       [LName (TypeName (h inType)), LStr (MemberName inMember),
                        LName (TypeName (h outType))]],
                  errs = []\<rparr>)
     \<and> (\<forall>handler written e.
          MissingFieldsHandler (Options g) = Some handler
          \<and> handler h (NewNamedVariable ''in'' (Some inType))
                (NewNamedVariable ''out'' (Some outType)) inMember = (written, Some e) \<longrightarrow>
          doStructMember g hp h inType outType inMember =
            Some \<lparr>emitted = written, logged = [], errs = [e]\<rparr>
          \<and> e \<in> set (errs body)
          \<and> emitted r = emitted (privateFunction g hp h inType outType body))"
proof -
  have k: "Kind (h inType) = Map \<or> Kind (h inType) = Slice \<or> Kind (h inType) = Pointer
             \<longrightarrow> Elem (h outType) \<noteq> None"
    using assms(2) by simp
  obtain body where body: "generateFor g hp h inType outType = Some body"
    using generateFor_total [OF assms(1) k, of g hp] by auto
  obtain rs where rs: "doStructMembers g hp h inType outType (Members (h inType)) = Some rs"
    and errs: "errs body = errs rs"
    using generateFor_struct_errs [OF assms(2) body] by blast
  have member: "doStructMember g hp h inType outType inMember
                  = Some (missingField g hp h inType outType inMember)"
    using assms(4,5) by (simp add: doStructMember.simps)
  have sub: "set (errs (missingField g hp h inType outType inMember)) \<subseteq> set (errs body)"
    using doStructMembers_errs [OF rs assms(3) member] errs by simp
  obtain r where r: "generateConversion g hp h inType outType = Some r"
    using body by (simp add: generateConversion_def)
  have prefix: "\<exists>rest. emitted r = emitted (privateFunction g hp h inType outType body) @ rest"
    using body r
    by (auto simp: generateConversion_def Let_def emitted_app_res res_emit res_klog
          split: if_splits)
  have nohandler: "MissingFieldsHandler (Options g) = None \<longrightarrow>
          doStructMember g hp h inType outType inMember =
            Some \<lparr>emitted = [],
                  logged =
                    [Warningf ''%s.%s requires manual conversion: does not exist in peer-type %s''
                       [LName (TypeName (h inType)), LStr (MemberName inMember),
                        LName (TypeName (h outType))]],
                  errs = []\<rparr>"
    using member by (simp add: missingField_def klog_def)
  have handler: "\<forall>handler written e.
          MissingFieldsHandler (Options g) = Some handler
          \<and> handler h (NewNamedVariable ''in'' (Some inType))
                (NewNamedVariable ''out'' (Some outType)) inMember = (written, Some e) \<longrightarrow>
          doStructMember g hp h inType outType inMember =
            Some \<lparr>emitted = written, logged = [], errs = [e]\<rparr>
          \<and> e \<in> set (errs body)
          \<and> emitted r = emitted (privateFunction g hp h inType outType body)"
  proof (intro allI impI)
    fix handler written e
    assume a: "MissingFieldsHandler (Options g) = Some handler
          \<and> handler h (NewNamedVariable ''in'' (Some inType))
                (NewNamedVariable ''out'' (Some outType)) inMember = (written, Some e)"
    then have mf: "missingField g hp h inType outType inMember
                     = \<lparr>emitted = written, logged = [], errs = [e]\<rparr>"
      by (simp add: missingField_def errlist_def)
    then have e: "e \<in> set (errs body)" using sub by simp
    then have ne: "errs body \<noteq> []" by auto
    have "emitted r = emitted (privateFunction g hp h inType outType body)"
      using body r ne
      by (auto simp: generateConversion_def Let_def emitted_app_res res_emit res_klog
            split: if_splits)
    then show "doStructMember g hp h inType outType inMember =
            Some \<lparr>emitted = written, logged = [], errs = [e]\<rparr>
          \<and> e \<in> set (errs body)
          \<and> emitted r = emitted (privateFunction g hp h inType outType body)"
      using member mf e by simp
  qed
  from body r prefix nohandler handler show ?thesis
    by (intro exI[of _ body] exI[of _ r] conjI) assumption+
qed

text \<open>
  C7 at work: the member \<^verbatim>\<open>Gone\<close> of \<^verbatim>\<open>a.Outer\<close>, without a handler and with the
  handler of the converter.
\<close>

theorem missing_field_warning_or_error_witness:
  "doStructMember exampleGenerator exampleHelpers exampleStore aOuter bOuter mGone =
     Some \<lparr>emitted = [],
           logged =
             [Warningf ''%s.%s requires manual conversion: does not exist in peer-type %s''
                [LName \<lparr>Package = ''a'', Name = ''Outer''\<rparr>, LStr ''Gone'',
                 LName \<lparr>Package = ''b'', Name = ''Outer''\<rparr>]],
           errs = []\<rparr>
   \<and> doStructMember strictGenerator exampleHelpers exampleStore aOuter bOuter mGone =
       Some \<lparr>emitted =
               [Do ''// WARNING: in.Gone requires manual conversion: does not exist in peer-type\<newline>''
                  ANil],
             logged = [],
             errs = [''field Gone requires manual conversion'']\<rparr>
   \<and> (\<exists>body. generateFor strictGenerator exampleHelpers exampleStore aOuter bOuter = Some body
         \<and> ''field Gone requires manual conversion'' \<in> set (errs body)
         \<and> map_option emitted
             (generateConversion strictGenerator exampleHelpers exampleStore aOuter bOuter)
             = Some (emitted (privateFunction strictGenerator exampleHelpers exampleStore
                                aOuter bOuter body)))"
proof -
  have k: "Kind (exampleStore aOuter) = Struct" by (simp add: example_kinds)
  have m: "mGone \<in> set (Members (exampleStore aOuter))" by (simp add: example_membersOf)
  have o1: "\<not> optedOut exampleGenerator exampleHelpers (MemberCommentLines mGone)"
    and o2: "\<not> optedOut strictGenerator exampleHelpers (MemberCommentLines mGone)"
    by (simp_all add: example_member_fields ex_notOptedOut)
  have f: "findMember exampleHelpers exampleStore bOuter (MemberName mGone) = None"
    by (simp add: example_member_fields ex_find)
  have run: "ErrorMissingFieldHandler exampleStore (NewNamedVariable ''in'' (Some aOuter))
               (NewNamedVariable ''out'' (Some bOuter)) mGone =
             ([Do ''// WARNING: in.Gone requires manual conversion: does not exist in peer-type\<newline>''
                 ANil],
              Some ''field Gone requires manual conversion'')"
    by (simp add: ErrorMissingFieldHandler_def example_member_fields)
  have first: "doStructMember exampleGenerator exampleHelpers exampleStore aOuter bOuter mGone =
     Some \<lparr>emitted = [],
           logged =
             [Warningf ''%s.%s requires manual conversion: does not exist in peer-type %s''
                [LName \<lparr>Package = ''a'', Name = ''Outer''\<rparr>, LStr ''Gone'',
                 LName \<lparr>Package = ''b'', Name = ''Outer''\<rparr>]],
           errs = []\<rparr>"
    using missing_field_warning_or_error [OF wfStore_exampleStore k m o1 f]
          example_strict_handler(2)
    by (elim exE conjE) (simp add: example_names example_member_fields)
  from missing_field_warning_or_error [OF wfStore_exampleStore k m o2 f]
  obtain body r where
    body: "generateFor strictGenerator exampleHelpers exampleStore aOuter bOuter = Some body"
    and r: "generateConversion strictGenerator exampleHelpers exampleStore aOuter bOuter = Some r"
    and h: "\<forall>handler written e.
          MissingFieldsHandler (Options strictGenerator) = Some handler
          \<and> handler exampleStore (NewNamedVariable ''in'' (Some aOuter))
                (NewNamedVariable ''out'' (Some bOuter)) mGone = (written, Some e) \<longrightarrow>
          doStructMember strictGenerator exampleHelpers exampleStore aOuter bOuter mGone =
            Some \<lparr>emitted = written, logged = [], errs = [e]\<rparr>
          \<and> e \<in> set (errs body)
          \<and> emitted r = emitted (privateFunction strictGenerator exampleHelpers exampleStore
                                    aOuter bOuter body)"
    by (elim exE conjE) (rule that)
  have second: "doStructMember strictGenerator exampleHelpers exampleStore aOuter bOuter mGone =
            Some \<lparr>emitted =
               [Do ''// WARNING: in.Gone requires manual conversion: does not exist in peer-type\<newline>''
                  ANil],
               logged = [], errs = [''field Gone requires manual conversion'']\<rparr>
          \<and> ''field Gone requires manual conversion'' \<in> set (errs body)
          \<and> emitted r = emitted (privateFunction strictGenerator exampleHelpers exampleStore
                                    aOuter bOuter body)"
    using h [rule_format, of ErrorMissingFieldHandler _ _] example_strict_handler(1) run
    by blast
  show ?thesis
    using first second body r by auto
qed

text \<open>
  C7 as stated fails for a member that is opted out: \<^verbatim>\<open>Skipped\<close> of \<^verbatim>\<open>a.Quiet\<close>
  has no member of its name in \<^verbatim>\<open>b.Quiet\<close> and the handler returns an error on it, but
  the handler is never called: the member adds a comment, no warning and no error, and the
  public wrapper of the pair is written.
\<close>

theorem missing_field_opted_out_counterexample:
  "mSkipped \<in> set (Members (exampleStore aQuiet))
   \<and> findMember exampleHelpers exampleStore bQuiet (MemberName mSkipped) = None
   \<and> MissingFieldsHandler (Options strictGenerator) = Some ErrorMissingFieldHandler
   \<and> snd (ErrorMissingFieldHandler exampleStore (NewNamedVariable ''in'' (Some aQuiet))
            (NewNamedVariable ''out'' (Some bQuiet)) mSkipped)
       = Some ''field Skipped requires manual conversion''
   \<and> doStructMember strictGenerator exampleHelpers exampleStore aQuiet bQuiet mSkipped =
       Some \<lparr>emitted =
               [Do ''// INFO: in.Skipped opted out of conversion generation\<newline>'' ANil],
             logged = [], errs = []\<rparr>
   \<and> map_option emitted
       (generateConversion strictGenerator exampleHelpers exampleStore aQuiet bQuiet) =
       Some (emitted (privateFunction strictGenerator exampleHelpers exampleStore aQuiet bQuiet
               \<lparr>emitted =
                  [Do ''// INFO: in.Skipped opted out of conversion generation\<newline>'' ANil],
                logged = [InfofV5 ''generating %v -> %v''
                            [LName \<lparr>Package = ''a'', Name = ''Quiet''\<rparr>,
                             LName \<lparr>Package = ''b'', Name = ''Quiet''\<rparr>]],
                errs = []\<rparr>)
             @ publicFunction strictGenerator exampleHelpers exampleStore aQuiet bQuiet)"
  by (simp add: example_membersOf ex_find example_member_fields example_strict_handler
        ErrorMissingFieldHandler_def doStructMember.simps example_optedOut_Skipped
        generateConversion_def example_generateFor_Quiet Let_def example_preexists
        example_noPublicFun emitted_app_res res_emit emit_def)

end
